theory Spec2Isabelle
  imports Complex_Main "HOL-Library.Word" "HOL-Library.Sublist" "HOL-Library.Log_Nat"
begin

unbundle bit_operations_syntax

section \<open>Values of the Go program\<close>

type_synonym byte = "8 word"

text \<open>The bytes of a Go string literal, as \<^verbatim>\<open>[]byte("RIFF")\<close> gives them.\<close>

definition bytes_of :: "string \<Rightarrow> byte list" where
  "bytes_of s = map (\<lambda>c. of_nat (of_char c)) s"

subsection \<open>float64\<close>

text \<open>
  A \<^verbatim>\<open>float64\<close> is a finite number, an infinity or NaN. A finite value is the rational
  it stands for. Every operation gives the value of the format nearest to the exact result
  (ties to the even mantissa), as IEEE 754 binary64 does: 53 bits of mantissa, exponents
  from -1022 to 1023, subnormal numbers below, an infinity from \<open>2 ^ 1024 - 2 ^ 970\<close> on.
  Go's float division does not panic on a zero divisor (HOL's \<open>x / 0\<close> would silently be
  \<open>0\<close>): it gives an infinity or NaN. The sign of a zero is not kept; no divisor of this
  program can be a negative zero.
\<close>

datatype float64 = Fin rat | PInf | NInf | NaN

text \<open>Two to an integer power.\<close>

definition pow2 :: "int \<Rightarrow> rat" where
  "pow2 k = (if 0 \<le> k then 2 ^ nat k else 1 / 2 ^ nat (- k))"

text \<open>The nearest integer, a tie going to the even one.\<close>

definition round_even :: "rat \<Rightarrow> int" where
  "round_even x =
     (let f = \<lfloor>x\<rfloor>; r = x - of_int f
      in if r < 1 / 2 then f else if 1 / 2 < r then f + 1 else if even f then f else f + 1)"

text \<open>The binary exponent of a positive number \<open>a\<close>: the \<open>e\<close> with \<open>2 ^ e \<le> a < 2 ^ (e + 1)\<close>.\<close>

definition expo :: "rat \<Rightarrow> int" where
  "expo a = (if 1 \<le> a then bitlen \<lfloor>a\<rfloor> - 1 else - bitlen (\<lceil>1 / a\<rceil> - 1))"

text \<open>
  A positive number rounded to 53 bits at its exponent, or at the least exponent -1022
  where it is subnormal: a multiple of the unit in the last place \<open>u\<close>.
\<close>

definition round_abs :: "rat \<Rightarrow> rat" where
  "round_abs a =
     (let e = max (expo a) (- 1022);
          u = pow2 (e - 52)
      in of_int (round_even (a / u)) * u)"

definition round64 :: "rat \<Rightarrow> float64" where
  "round64 x =
     (if x = 0 then Fin 0
      else
        (let r = round_abs \<bar>x\<bar>
         in if pow2 1024 \<le> r then (if 0 < x then PInf else NInf)
            else Fin (if 0 < x then r else - r)))"

fun fsign :: "float64 \<Rightarrow> int" where
  "fsign (Fin a) = (if a = 0 then 0 else if 0 < a then 1 else -1)"
| "fsign PInf = 1"
| "fsign NInf = -1"
| "fsign NaN = 0"

definition inf_of_sign :: "int \<Rightarrow> float64" where
  "inf_of_sign s = (if s = 0 then NaN else if 0 < s then PInf else NInf)"

fun fmul :: "float64 \<Rightarrow> float64 \<Rightarrow> float64" where
  "fmul (Fin a) (Fin b) = round64 (a * b)"
| "fmul NaN y = NaN"
| "fmul x NaN = NaN"
| "fmul x y = inf_of_sign (fsign x * fsign y)"

fun fdiv :: "float64 \<Rightarrow> float64 \<Rightarrow> float64" where
  "fdiv (Fin a) (Fin b) = (if b = 0 then inf_of_sign (fsign (Fin a)) else round64 (a / b))"
| "fdiv NaN y = NaN"
| "fdiv x NaN = NaN"
| "fdiv (Fin a) y = Fin 0"
| "fdiv x (Fin b) = inf_of_sign (fsign x * (if b < 0 then -1 else 1))"
| "fdiv x y = NaN"

text \<open>\<^verbatim>\<open>float64(n)\<close> of an integer: the nearest value of the format.\<close>

definition float64_of_int :: "int \<Rightarrow> float64" where
  "float64_of_int n = round64 (of_int n)"

text \<open>A float64 that is not below zero: for the proofs about signs.\<close>

fun not_negative :: "float64 \<Rightarrow> bool" where
  "not_negative (Fin a) = (0 \<le> a)"
| "not_negative PInf = True"
| "not_negative NaN = True"
| "not_negative NInf = False"

text \<open>Truncation toward zero of a rational.\<close>

definition trunc :: "rat \<Rightarrow> int" where
  "trunc q = (if 0 \<le> q then \<lfloor>q\<rfloor> else \<lceil>q\<rceil>)"

text \<open>
  \<^verbatim>\<open>int(f)\<close> of a float64, \<^verbatim>\<open>int\<close> being 64 bits wide: the fraction is discarded
  (truncation toward zero). Where the value does not fit (too large, an infinity, NaN) the
  Go specification leaves the result to the implementation: it is the parameter \<open>impl\<close>.
\<close>

definition go_int :: "(float64 \<Rightarrow> int) \<Rightarrow> float64 \<Rightarrow> int" where
  "go_int impl f =
     (case f of
        Fin q \<Rightarrow> (if - (2 ^ 63) \<le> trunc q \<and> trunc q < 2 ^ 63 then trunc q else impl f)
      | _ \<Rightarrow> impl f)"

section \<open>common/wav-file.go\<close>

record WAVHeader =
  RIFF :: "byte list"
  FileSize :: "32 word"
  WAVE :: "byte list"
  FMT :: "byte list"
  FMTSize :: "32 word"
  AudioFormat :: "16 word"
  Channels :: "16 word"
  SampleRate :: "32 word"
  ByteRate :: "32 word"
  BlockAlign :: "16 word"
  BitsPerSample :: "16 word"
  Data :: "byte list"
  DataSize :: "32 word"

text \<open>\<^verbatim>\<open>binary.LittleEndian.Uint16\<close> and \<^verbatim>\<open>Uint32\<close> on a slice of 2 and of 4 bytes.\<close>

definition Uint16 :: "byte list \<Rightarrow> 16 word" where
  "Uint16 b = ucast (b ! 0) OR push_bit 8 (ucast (b ! 1))"

definition Uint32 :: "byte list \<Rightarrow> 32 word" where
  "Uint32 b = ucast (b ! 0) OR push_bit 8 (ucast (b ! 1))
                OR push_bit 16 (ucast (b ! 2)) OR push_bit 24 (ucast (b ! 3))"

text \<open>The bytes \<open>[i, j)\<close> of a slice.\<close>

definition slice :: "nat \<Rightarrow> nat \<Rightarrow> byte list \<Rightarrow> byte list" where
  "slice i j b = take (j - i) (drop i b)"

text \<open>
  \<^verbatim>\<open>binary.Read(file, binary.LittleEndian, &header)\<close>: the 44 bytes of the struct are read
  in full from the start of the file and decoded field by field; fewer than 44 bytes is an
  error (\<open>None\<close>).
\<close>

definition binary_Read :: "byte list \<Rightarrow> WAVHeader option" where
  "binary_Read f =
     (if length f < 44 then None
      else Some \<lparr> RIFF = slice 0 4 f,
                  FileSize = Uint32 (slice 4 8 f),
                  WAVE = slice 8 12 f,
                  FMT = slice 12 16 f,
                  FMTSize = Uint32 (slice 16 20 f),
                  AudioFormat = Uint16 (slice 20 22 f),
                  Channels = Uint16 (slice 22 24 f),
                  SampleRate = Uint32 (slice 24 28 f),
                  ByteRate = Uint32 (slice 28 32 f),
                  BlockAlign = Uint16 (slice 32 34 f),
                  BitsPerSample = Uint16 (slice 34 36 f),
                  Data = slice 36 40 f,
                  DataSize = Uint32 (slice 40 44 f) \<rparr>)"

section \<open>RelayAudio: the duration estimate and the quota\<close>

text \<open>
  Lines 252 to 259 of the controller: the header's magic decides between the header's own
  rate and the assumed rate of 16000 bytes per second. \<open>fsize\<close> is \<^verbatim>\<open>form.File.Size\<close>.
  Both divisions are float64 divisions of float64 conversions.
\<close>

definition estimate_duration :: "WAVHeader \<Rightarrow> int \<Rightarrow> float64" where
  "estimate_duration header fsize =
     (if RIFF header \<noteq> bytes_of ''RIFF'' \<or> WAVE header \<noteq> bytes_of ''WAVE''
      then fdiv (float64_of_int fsize) (Fin 16000)
      else fdiv (float64_of_int (uint (DataSize header))) (float64_of_int (uint (ByteRate header))))"

text \<open>
  Lines 337 to 343, inside the deferred function: \<^verbatim>\<open>m := QuotaPerUnit * 0.006\<close>,
  \<^verbatim>\<open>s := m / 60\<close>, \<^verbatim>\<open>quota := int(duration * s)\<close>. The constant \<^verbatim>\<open>0.006\<close> is the
  float64 nearest to it; 60 is a float64 itself.
\<close>

definition audio_quota :: "(float64 \<Rightarrow> int) \<Rightarrow> float64 \<Rightarrow> float64 \<Rightarrow> int" where
  "audio_quota impl QuotaPerUnit duration =
     (let m = fmul QuotaPerUnit (round64 0.006);
          s = fdiv m (Fin 60)
      in go_int impl (fmul duration s))"

section \<open>The controller's data\<close>

text \<open>The Go type \<^verbatim>\<open>any\<close> of the field \<^verbatim>\<open>Code\<close>, as far as the controller fills it.\<close>

datatype any = AnyNil | AnyString string | AnyInt int

record OpenAIError =
  Message :: string
  Type :: string
  Param :: string
  Code :: any

text \<open>The struct embeds \<^verbatim>\<open>OpenAIError\<close>: a record extension, whose truncation is the embedded value.\<close>

record OpenAIErrorWithStatusCode = OpenAIError +
  StatusCode :: int

datatype RelayMode =
    RelayModeUnknown
  | RelayModeChatCompletions
  | RelayModeCompletions
  | RelayModeEmbeddings
  | RelayModeModerations
  | RelayModeImagesGenerations
  | RelayModeEdits

text \<open>
  What a handler reads from its \<^verbatim>\<open>*gin.Context\<close>: the request line, \<^verbatim>\<open>c.Query(key)\<close>
  (the empty string when the parameter is absent), \<^verbatim>\<open>c.Request.Header.Get(key)\<close>, and the
  keys that earlier middleware stored (\<^verbatim>\<open>c.GetInt\<close> is 0 and \<^verbatim>\<open>c.GetString\<close> is empty for
  a key that was never set).
\<close>

record Context =
  Method :: string
  Path :: string
  Query :: "string \<Rightarrow> string"
  HeaderGet :: "string \<Rightarrow> string"
  GetInt :: "string \<Rightarrow> int"
  GetString :: "string \<Rightarrow> string"

record FileHeader =
  Filename :: string
  Content :: "byte list"

text \<open>\<^verbatim>\<open>FileHeader.Size\<close>: the number of bytes of the uploaded part.\<close>

definition Size :: "FileHeader \<Rightarrow> int" where
  "Size fh = int (length (Content fh))"

record AudioTranscriptionsRequest =
  File :: FileHeader
  Model :: string
  Prompt :: string
  ResponseFormat :: string
  Temperature :: float64
  Language :: string

text \<open>The outbound request: method, URL, the three headers set, and the multi-part body.\<close>

record Request =
  ReqMethod :: string
  ReqURL :: string
  ReqAuthorization :: string
  ReqContentType :: string
  ReqAccept :: string
  ReqFormFile :: "string \<times> string \<times> byte list"
  ReqFields :: "(string \<times> string) list"

text \<open>
  The upstream response. \<^verbatim>\<open>resp.Header\<close> is a Go map from a key to its list of values; it
  is kept as the list of its entries in the order the \<^verbatim>\<open>range\<close> loop visits them.
\<close>

record Response =
  RespStatusCode :: int
  RespHeader :: "(string \<times> string list) list"
  RespBody :: "byte list"

subsection \<open>Effects\<close>

text \<open>
  A handler returns nothing: what it does is the sequence of its calls on the client's
  response writer, on the upstream connection, on the log and on the model layer.
\<close>

datatype effect =
    JSON int OpenAIError
  | Redirect int string
  | SysError string
  | SysLog string
  | relayImageHelper_call RelayMode
  | relayTextHelper_call RelayMode
  | disableChannel_call int string string
  | File_Close
  | Do Request
  | ReqBody_Close
  | ClientBody_Close
  | RespBody_Close
  | Header_Set string string
  | WriteHeader int
  | Write "byte list"
  | PostConsumeTokenQuota int int
  | CacheUpdateUserQuota int
  | RecordConsumeLog int int int string string int string
  | UpdateUserUsedQuotaAndRequestCount int int
  | UpdateChannelUsedQuota int int
  | Panic string

subsection \<open>strings and strconv\<close>

definition HasPrefix :: "string \<Rightarrow> string \<Rightarrow> bool" where
  "HasPrefix s p = (length p \<le> length s \<and> take (length p) s = p)"

definition HasSuffix :: "string \<Rightarrow> string \<Rightarrow> bool" where
  "HasSuffix s p = (length p \<le> length s \<and> drop (length s - length p) s = p)"

definition is_digit :: "char \<Rightarrow> bool" where
  "is_digit ch = (48 \<le> (of_char ch :: nat) \<and> (of_char ch :: nat) \<le> 57)"

fun digits_val :: "nat \<Rightarrow> string \<Rightarrow> nat" where
  "digits_val acc [] = acc"
| "digits_val acc (ch # cs) = digits_val (acc * 10 + (of_char ch - 48)) cs"

text \<open>
  The value \<^verbatim>\<open>strconv.Atoi\<close> returns, its error dropped as the controller drops it: an
  optional sign and one or more decimal digits; 0 on any other string; the nearest bound
  of the 64-bit \<^verbatim>\<open>int\<close> when the number is out of range.
\<close>

definition Atoi :: "string \<Rightarrow> int" where
  "Atoi s =
     (let neg = (s \<noteq> [] \<and> hd s = CHR ''-'');
          ds = (if s \<noteq> [] \<and> (hd s = CHR ''-'' \<or> hd s = CHR ''+'') then tl s else s)
      in if ds = [] \<or> \<not> list_all is_digit ds then 0
         else if neg then max (- (2 ^ 63)) (- int (digits_val 0 ds))
         else min (2 ^ 63 - 1) (int (digits_val 0 ds)))"

fun nat_digits :: "nat \<Rightarrow> string" where
  "nat_digits n =
     (if n < 10 then [char_of (48 + n)]
      else nat_digits (n div 10) @ [char_of (48 + n mod 10)])"

declare nat_digits.simps [simp del]

text \<open>The verb \<^verbatim>\<open>%d\<close> of \<^verbatim>\<open>fmt.Sprintf\<close> on an \<^verbatim>\<open>int\<close>.\<close>

definition Itoa :: "int \<Rightarrow> string" where
  "Itoa i = (if i < 0 then CHR ''-'' # nat_digits (nat (- i)) else nat_digits (nat i))"

section \<open>Relay\<close>

text \<open>Lines 158 to 173: the mode of a request path.\<close>

definition relayMode_of :: "string \<Rightarrow> RelayMode" where
  "relayMode_of path =
     (if HasPrefix path ''/v1/chat/completions'' then RelayModeChatCompletions
      else if HasPrefix path ''/v1/completions'' then RelayModeCompletions
      else if HasPrefix path ''/v1/embeddings'' then RelayModeEmbeddings
      else if HasSuffix path ''embeddings'' then RelayModeEmbeddings
      else if HasPrefix path ''/v1/moderations'' then RelayModeModerations
      else if HasPrefix path ''/v1/images/generations'' then RelayModeImagesGenerations
      else if HasPrefix path ''/v1/edits'' then RelayModeEdits
      else RelayModeUnknown)"

text \<open>
  What \<^verbatim>\<open>Relay\<close> uses and this file does not define: the package variable
  \<^verbatim>\<open>common.RetryTimes\<close>, the two pipelines (each returns \<^verbatim>\<open>nil\<close> or an error with its
  status code) and the disable policy.
\<close>

record RelayDeps =
  RetryTimes :: int
  relayImageHelper :: "Context \<Rightarrow> RelayMode \<Rightarrow> OpenAIErrorWithStatusCode option"
  relayTextHelper :: "Context \<Rightarrow> RelayMode \<Rightarrow> OpenAIErrorWithStatusCode option"
  shouldDisableChannel :: "OpenAIError \<Rightarrow> bool"

text \<open>The UTF-8 bytes of the message that line 191 writes for status 429.\<close>

definition load_saturated_message :: string where
  "load_saturated_message = map char_of
     [229, 189, 147, 229, 137, 141, 229, 136, 134, 231, 187, 132, 232, 180, 159, 232, 189,
      189, 229, 183, 178, 233, 165, 177, 229, 146, 140, 239, 188, 140, 232, 175, 183, 231,
      168, 141, 229, 144, 142, 229, 134, 141, 232, 175, 149, 239, 188, 140, 230, 136, 150,
      229, 141, 135, 231, 186, 167, 232, 180, 166, 230, 136, 183, 228, 187, 165, 230, 143,
      144, 229, 141, 135, 230, 156, 141, 229, 138, 161, 232, 180, 168, 233, 135, 143, 227,
      128, 130 :: nat]"

text \<open>Lines 175 to 180: the pipeline called for a mode, as the effect and as its result.\<close>

definition pipeline_call :: "RelayMode \<Rightarrow> effect" where
  "pipeline_call relayMode =
     (case relayMode of
        RelayModeImagesGenerations \<Rightarrow> relayImageHelper_call relayMode
      | _ \<Rightarrow> relayTextHelper_call relayMode)"

definition pipeline_result ::
  "RelayDeps \<Rightarrow> Context \<Rightarrow> RelayMode \<Rightarrow> OpenAIErrorWithStatusCode option" where
  "pipeline_result d c relayMode =
     (case relayMode of
        RelayModeImagesGenerations \<Rightarrow> relayImageHelper d c relayMode
      | _ \<Rightarrow> relayTextHelper d c relayMode)"

text \<open>Lines 182 to 186: the retry budget of this attempt.\<close>

definition retryTimes_of :: "RelayDeps \<Rightarrow> Context \<Rightarrow> int" where
  "retryTimes_of d c =
     (let retryTimesStr = Query c ''retry'';
          retryTimes = Atoi retryTimesStr
      in if retryTimesStr = [] then RetryTimes d else retryTimes)"

text \<open>Lines 190 to 192: the error after the write to its message on status 429.\<close>

definition terminal_error :: "OpenAIErrorWithStatusCode \<Rightarrow> OpenAIErrorWithStatusCode" where
  "terminal_error err =
     (if StatusCode err = 429 then err\<lparr>Message := load_saturated_message\<rparr> else err)"

text \<open>
  Lines 181 to 205, for the error \<open>err\<close> of the pipeline. The error is a pointer: the
  write of line 191 is seen by the log line and by the disable policy after it.
\<close>

definition relay_failed :: "RelayDeps \<Rightarrow> Context \<Rightarrow> OpenAIErrorWithStatusCode \<Rightarrow> effect list" where
  "relay_failed d c err0 =
     (let retryTimes = retryTimes_of d c;
          err = (if retryTimes > 0 then err0 else terminal_error err0);
          channelId = GetInt c ''channel_id''
      in (if retryTimes > 0
          then [Redirect 307 (Path c @ ''?retry='' @ Itoa (retryTimes - 1))]
          else [JSON (StatusCode err) (OpenAIError.truncate err)])
         @ [SysError (''relay error (channel #'' @ Itoa channelId @ ''): '' @ Message err)]
         @ (if shouldDisableChannel d (OpenAIError.truncate err)
            then [disableChannel_call (GetInt c ''channel_id'') (GetString c ''channel_name'')
                    (Message err)]
            else []))"

definition Relay :: "RelayDeps \<Rightarrow> Context \<Rightarrow> effect list" where
  "Relay d c =
     (let relayMode = relayMode_of (Path c)
      in pipeline_call relayMode #
         (case pipeline_result d c relayMode of
            None \<Rightarrow> []
          | Some err \<Rightarrow> relay_failed d c err))"

text \<open>
  Modelled from the spec: \<^verbatim>\<open>disableChannel\<close> is not among the sources. Section 4.6 of the
  specification: it marks the channel of the given identifier as disabled in the channel
  store and emits a diagnostic record with the channel name and the reason; disabling a
  channel that is disabled already is a no-op. The state it acts on is the enabled flag of
  every channel and the diagnostic records emitted so far.
\<close>

record ChannelState =
  enabled :: "int \<Rightarrow> bool"
  diagnostics :: "(string \<times> string) list"

definition disableChannel :: "int \<Rightarrow> string \<Rightarrow> string \<Rightarrow> ChannelState \<Rightarrow> ChannelState" where
  "disableChannel channelId channelName reason st =
     (if enabled st channelId
      then st\<lparr> enabled := (enabled st)(channelId := False),
               diagnostics := diagnostics st @ [(channelName, reason)] \<rparr>
      else st)"

text \<open>The channel state after the effects of a handler.\<close>

fun store_after :: "effect list \<Rightarrow> ChannelState \<Rightarrow> ChannelState" where
  "store_after [] st = st"
| "store_after (disableChannel_call channelId channelName reason # es) st =
     store_after es (disableChannel channelId channelName reason st)"
| "store_after (e # es) st = store_after es st"

section \<open>RelayAudio\<close>

text \<open>
  What \<^verbatim>\<open>RelayAudio\<close> uses and this file does not define: the result of binding the form
  (\<open>None\<close> for an error), whether each fallible call succeeds, the table of base URLs, the
  reply of the upstream (\<open>Inl\<close> the text of the transport error), how far the copy of the
  response body gets before it fails (\<open>None\<close>: it does not fail), the billing constants
  and the formatting of floats.
\<close>

record AudioDeps =
  ShouldBind :: "AudioTranscriptionsRequest option"
  File_Open_ok :: bool
  ChannelBaseURLs :: "string list"
  CreateFormFile_ok :: bool
  FormatFloat :: "float64 \<Rightarrow> string"
  FormDataContentType :: string
  NewRequest_ok :: bool
  httpClient_Do :: "Request \<Rightarrow> string + Response"
  ReqBody_Close_ok :: bool
  ClientBody_Close_ok :: bool
  Copy_fails_after :: "nat option"
  RespBody_Close_ok :: bool
  QuotaPerUnit :: float64
  int_impl :: "float64 \<Rightarrow> int"
  GetModelRatio :: "string \<Rightarrow> float64"
  GetGroupRatio :: "string \<Rightarrow> float64"
  Sprintf_ratios :: "float64 \<Rightarrow> float64 \<Rightarrow> string"
  PostConsumeTokenQuota_err :: "string option"
  CacheUpdateUserQuota_err :: "string option"

text \<open>The error value every failure exit of \<^verbatim>\<open>RelayAudio\<close> builds.\<close>

definition audio_error :: "string \<Rightarrow> string \<Rightarrow> OpenAIError" where
  "audio_error msg param =
     \<lparr> Message = msg, Type = ''one_api_error'', Param = param, Code = AnyString ''audio_error'' \<rparr>"

text \<open>
  Lines 334 to 368: the deferred function. It runs when \<^verbatim>\<open>RelayAudio\<close> returns, on every
  path after the upstream has answered.
\<close>

definition accounting :: "AudioDeps \<Rightarrow> Context \<Rightarrow> float64 \<Rightarrow> Response \<Rightarrow> effect list" where
  "accounting d c duration resp =
     (if RespStatusCode resp = 200 then
        (let quota = audio_quota (int_impl d) (QuotaPerUnit d) duration;
             tokenId = GetInt c ''token_id'';
             userId = GetInt c ''id'';
             group = GetString c ''group'';
             imageModel = ''whisper-1'';
             modelRatio = GetModelRatio d imageModel;
             groupRatio = GetGroupRatio d group
         in [PostConsumeTokenQuota tokenId quota]
            @ (case PostConsumeTokenQuota_err d of
                 None \<Rightarrow> []
               | Some e \<Rightarrow> [SysError (''error consuming token remain quota: '' @ e)])
            @ [CacheUpdateUserQuota userId]
            @ (case CacheUpdateUserQuota_err d of
                 None \<Rightarrow> []
               | Some e \<Rightarrow> [SysError (''error update user quota cache: '' @ e)])
            @ (if quota \<noteq> 0
               then [RecordConsumeLog userId 0 0 imageModel (GetString c ''token_name'') quota
                       (Sprintf_ratios d modelRatio groupRatio),
                     UpdateUserUsedQuotaAndRequestCount userId quota,
                     UpdateChannelUsedQuota (GetInt c ''channel_id'') quota]
               else []))
      else [])"

text \<open>
  Lines 397 to 399, followed by the rest of the function (\<open>rest\<close>): \<^verbatim>\<open>v[0]\<close> panics on
  an empty list of values, and then nothing of the rest runs.
\<close>

fun copy_headers :: "(string \<times> string list) list \<Rightarrow> effect list \<Rightarrow> effect list" where
  "copy_headers [] rest = rest"
| "copy_headers ((k, v) # hs) rest =
     (case v of
        [] \<Rightarrow> [Panic ''index out of range'']
      | v0 # _ \<Rightarrow> Header_Set k v0 # copy_headers hs rest)"

text \<open>\<^verbatim>\<open>io.Copy\<close> writes nothing when it has no byte to write.\<close>

definition write_bytes :: "byte list \<Rightarrow> effect list" where
  "write_bytes bs = (if bs = [] then [] else [Write bs])"

text \<open>Lines 402 to 427: the copy of the body and the close of the response body.\<close>

definition copy_body :: "AudioDeps \<Rightarrow> Response \<Rightarrow> effect list" where
  "copy_body d resp =
     (case Copy_fails_after d of
        Some n \<Rightarrow>
          write_bytes (take n (RespBody resp))
          @ [JSON 500 (audio_error ''copy_response_body_failed'' [])]
      | None \<Rightarrow>
          write_bytes (RespBody resp)
          @ RespBody_Close #
            (if RespBody_Close_ok d then []
             else [JSON 500 (audio_error ''close_response_body_failed'' [])]))"

text \<open>Lines 370 to 427: everything between the upstream's answer and the return.\<close>

definition forward :: "AudioDeps \<Rightarrow> Response \<Rightarrow> effect list" where
  "forward d resp =
     ReqBody_Close #
     (if \<not> ReqBody_Close_ok d then [JSON 500 (audio_error ''close_request_body_failed'' [])]
      else ClientBody_Close #
        (if \<not> ClientBody_Close_ok d
         then [JSON 500 (audio_error ''close_request_body_failed'' [])]
         else copy_headers (RespHeader resp)
                (WriteHeader (RespStatusCode resp) # copy_body d resp)))"

text \<open>Lines 261 to 314: the outbound request, for a base URL already chosen.\<close>

definition outbound :: "AudioDeps \<Rightarrow> Context \<Rightarrow> AudioTranscriptionsRequest \<Rightarrow> string \<Rightarrow> Request" where
  "outbound d c form baseURL =
     \<lparr> ReqMethod = Method c,
       ReqURL = baseURL @ Path c,
       ReqAuthorization = HeaderGet c ''Authorization'',
       ReqContentType = FormDataContentType d,
       ReqAccept = HeaderGet c ''Accept'',
       ReqFormFile = (''file'', Filename (File form), Content (File form)),
       ReqFields = [(''model'', Model form), (''prompt'', Prompt form),
                    (''response_format'', ResponseFormat form),
                    (''temperature'', FormatFloat d (Temperature form)),
                    (''language'', Language form)] \<rparr>"

text \<open>
  Lines 261 to 429: the function once the duration is estimated. Indexing the table of
  base URLs out of its range panics.
\<close>

definition RelayAudio_estimated ::
  "AudioDeps \<Rightarrow> Context \<Rightarrow> AudioTranscriptionsRequest \<Rightarrow> float64 \<Rightarrow> effect list" where
  "RelayAudio_estimated d c form duration =
     (let channelType = GetInt c ''channel''
      in if channelType < 0 \<or> int (length (ChannelBaseURLs d)) \<le> channelType
         then [Panic ''index out of range'']
         else
           (let baseURL = (if GetString c ''base_url'' \<noteq> [] then GetString c ''base_url''
                           else ChannelBaseURLs d ! nat channelType)
            in if \<not> CreateFormFile_ok d
               then [JSON 500 (audio_error ''create_form_file_failed'' [])]
               else if \<not> NewRequest_ok d
               then [JSON 500 (audio_error ''new_request_failed'' [])]
               else
                 (let req = outbound d c form baseURL
                  in Do req #
                     (case httpClient_Do d req of
                        Inl e \<Rightarrow>
                          [SysLog (''RelayAudio do_request_failed '' @ e),
                           JSON 500 (audio_error ''do_request_failed'' e)]
                      | Inr resp \<Rightarrow> forward d resp @ accounting d c duration resp))))"

text \<open>Lines 237 to 259: the read of the header and the estimate, then the rest.\<close>

definition RelayAudio_opened ::
  "AudioDeps \<Rightarrow> Context \<Rightarrow> AudioTranscriptionsRequest \<Rightarrow> effect list" where
  "RelayAudio_opened d c form =
     (case binary_Read (Content (File form)) of
        None \<Rightarrow> [JSON 400 (audio_error ''Read file error'' [])]
      | Some header \<Rightarrow>
          RelayAudio_estimated d c form (estimate_duration header (Size (File form))))"

text \<open>Lines 208 to 236, and the deferred \<^verbatim>\<open>file.Close()\<close>.\<close>

definition RelayAudio :: "AudioDeps \<Rightarrow> Context \<Rightarrow> effect list" where
  "RelayAudio d c =
     (case ShouldBind d of
        None \<Rightarrow> [JSON 400 (audio_error ''bind_form_failed'' [])]
      | Some form \<Rightarrow>
          (if \<not> File_Open_ok d then [JSON 400 (audio_error ''Open file error'' [])]
           else RelayAudio_opened d c form @ [File_Close]))"

text \<open>The accounting calls on the model layer.\<close>

fun is_accounting :: "effect \<Rightarrow> bool" where
  "is_accounting (PostConsumeTokenQuota tokenId quota) = True"
| "is_accounting (CacheUpdateUserQuota userId) = True"
| "is_accounting (RecordConsumeLog userId p q m t quota content) = True"
| "is_accounting (UpdateUserUsedQuotaAndRequestCount userId quota) = True"
| "is_accounting (UpdateChannelUsedQuota channelId quota) = True"
| "is_accounting e = False"

text \<open>
  The accounting steps as the claim on them lists them, for a quota already computed: the
  debit of the token's quota, the refresh of the cached quota of the user and, when the
  quota is not zero, the consumption log and the used-quota counters of user and channel.
  This second definition is compared with the calls that \<open>accounting\<close> makes.
\<close>

definition accounting_steps :: "AudioDeps \<Rightarrow> Context \<Rightarrow> int \<Rightarrow> effect list" where
  "accounting_steps d c quota =
     [PostConsumeTokenQuota (GetInt c ''token_id'') quota,
      CacheUpdateUserQuota (GetInt c ''id'')]
     @ (if quota \<noteq> 0
        then [RecordConsumeLog (GetInt c ''id'') 0 0 ''whisper-1'' (GetString c ''token_name'') quota
                (Sprintf_ratios d (GetModelRatio d ''whisper-1'')
                   (GetGroupRatio d (GetString c ''group''))),
              UpdateUserUsedQuotaAndRequestCount (GetInt c ''id'') quota,
              UpdateChannelUsedQuota (GetInt c ''channel_id'') quota]
        else [])"

text \<open>The answers written to the client by \<^verbatim>\<open>Relay\<close>.\<close>

fun is_answer :: "effect \<Rightarrow> bool" where
  "is_answer (JSON code err) = True"
| "is_answer (Redirect code location) = True"
| "is_answer e = False"

subsection \<open>The client's side of the response writer\<close>









text \<open>
  The pending header map after \<^verbatim>\<open>Set(k, v[0])\<close> for each entry of a response header, in
  the order of the loop.
\<close>

definition header_after ::
  "(string \<Rightarrow> string) \<Rightarrow> (string \<rightharpoonup> string list) \<Rightarrow> (string \<times> string list) list
     \<Rightarrow> (string \<rightharpoonup> string list)" where
  "header_after canon m hs = foldl (\<lambda>m (k, v). m(canon k \<mapsto> [hd v])) m hs"

subsection \<open>The dispatch table as the specification words it\<close>

text \<open>
  Section 6 of the specification gives the modes as one ordered table of matchers, the
  first match deciding. This second definition follows those words, to be compared with
  \<open>relayMode_of\<close>.
\<close>

datatype matcher = PathPrefix string | PathSuffix string

fun matches :: "string \<Rightarrow> matcher \<Rightarrow> bool" where
  "matches path (PathPrefix p) = prefix p path"
| "matches path (PathSuffix p) = suffix p path"

definition spec_mode_table :: "(matcher \<times> RelayMode) list" where
  "spec_mode_table =
     [(PathPrefix ''/v1/chat/completions'', RelayModeChatCompletions),
      (PathPrefix ''/v1/completions'', RelayModeCompletions),
      (PathPrefix ''/v1/embeddings'', RelayModeEmbeddings),
      (PathSuffix ''embeddings'', RelayModeEmbeddings),
      (PathPrefix ''/v1/moderations'', RelayModeModerations),
      (PathPrefix ''/v1/images/generations'', RelayModeImagesGenerations),
      (PathPrefix ''/v1/edits'', RelayModeEdits)]"

fun first_match :: "string \<Rightarrow> (matcher \<times> RelayMode) list \<Rightarrow> RelayMode" where
  "first_match path [] = RelayModeUnknown"
| "first_match path ((m, mode) # table) =
     (if matches path m then mode else first_match path table)"

definition spec_mode :: "string \<Rightarrow> RelayMode" where
  "spec_mode path = first_match path spec_mode_table"

text \<open>The calls of the channel health controller among the effects.\<close>

fun is_disable :: "effect \<Rightarrow> bool" where
  "is_disable (disableChannel_call channelId channelName reason) = True"
| "is_disable e = False"

section \<open>Concrete runs\<close>

text \<open>A failing pipeline, with the disable policy of the upstream's error codes.\<close>

definition err_429 :: OpenAIErrorWithStatusCode where
  "err_429 = \<lparr> Message = ''Rate limit reached'', Type = ''requests'', Param = [],
                Code = AnyString ''rate_limit_exceeded'', StatusCode = 429 \<rparr>"

definition err_key :: OpenAIErrorWithStatusCode where
  "err_key = \<lparr> Message = ''Incorrect API key'', Type = ''invalid_request_error'', Param = [],
                Code = AnyString ''invalid_api_key'', StatusCode = 401 \<rparr>"

definition deps_failing :: "OpenAIErrorWithStatusCode \<Rightarrow> RelayDeps" where
  "deps_failing err =
     \<lparr> RetryTimes = 0,
       relayImageHelper = (\<lambda>c m. None),
       relayTextHelper = (\<lambda>c m. Some err),
       shouldDisableChannel = (\<lambda>e. Type e = ''insufficient_quota''
          \<or> Code e = AnyString ''invalid_api_key'' \<or> Code e = AnyString ''account_deactivated'') \<rparr>"

definition ctx_relay :: "string \<Rightarrow> string \<Rightarrow> Context" where
  "ctx_relay path retry =
     \<lparr> Method = ''POST'', Path = path,
       Query = (\<lambda>k. if k = ''retry'' then retry else []),
       HeaderGet = (\<lambda>k. []),
       GetInt = (\<lambda>k. if k = ''channel_id'' then 7 else 0),
       GetString = (\<lambda>k. if k = ''channel_name'' then ''ch7'' else []) \<rparr>"

text \<open>
  An upload of ten seconds of audio (a header of 44 bytes with a byte rate of 16000 and a
  data size of 160000), the request it is forwarded as, and an upstream that answers 200.
\<close>

definition ctx_audio :: Context where
  "ctx_audio =
     \<lparr> Method = ''POST'', Path = ''/v1/audio/transcriptions'',
       Query = (\<lambda>k. []),
       HeaderGet = (\<lambda>k. if k = ''Authorization'' then ''Bearer sk-1'' else []),
       GetInt = (\<lambda>k. if k = ''channel'' then 1 else if k = ''token_id'' then 5
                     else if k = ''id'' then 3 else if k = ''channel_id'' then 7 else 0),
       GetString = (\<lambda>k. if k = ''group'' then ''default'' else []) \<rparr>"

definition wav_10s :: "byte list" where
  "wav_10s = bytes_of ''RIFF'' @ [36, 113, 2, 0] @ bytes_of ''WAVE'' @ bytes_of ''fmt ''
       @ [16, 0, 0, 0, 1, 0, 1, 0, 128, 62, 0, 0, 128, 62, 0, 0, 1, 0, 8, 0]
       @ bytes_of ''data'' @ [0, 113, 2, 0]"

definition hdr_10s :: WAVHeader where
  "hdr_10s =
     \<lparr> RIFF = bytes_of ''RIFF'', FileSize = 160036, WAVE = bytes_of ''WAVE'',
       FMT = bytes_of ''fmt '', FMTSize = 16, AudioFormat = 1, Channels = 1,
       SampleRate = 16000, ByteRate = 16000, BlockAlign = 1, BitsPerSample = 8,
       Data = bytes_of ''data'', DataSize = 160000 \<rparr>"

definition form_wav :: AudioTranscriptionsRequest where
  "form_wav = \<lparr> File = \<lparr> Filename = ''a.wav'', Content = wav_10s \<rparr>, Model = ''whisper-1'',
                 Prompt = [], ResponseFormat = ''json'', Temperature = Fin 0, Language = ''en'' \<rparr>"

text \<open>An upload of 16000 bytes that is not a WAV file.\<close>

definition file_ogg :: FileHeader where
  "file_ogg = \<lparr> Filename = ''a.ogg'', Content = bytes_of ''OggS'' @ replicate 15996 0 \<rparr>"

definition resp_ok :: Response where
  "resp_ok = \<lparr> RespStatusCode = 200, RespHeader = [(''Content-Type'', [''text/plain'', ''x''])],
                RespBody = bytes_of ''hello'' \<rparr>"

definition deps_ok :: AudioDeps where
  "deps_ok =
     \<lparr> ShouldBind = Some form_wav, File_Open_ok = True,
       ChannelBaseURLs = [[], ''https://api.openai.com''],
       CreateFormFile_ok = True, FormatFloat = (\<lambda>f. ''0''),
       FormDataContentType = ''multipart/form-data; boundary=b'', NewRequest_ok = True,
       httpClient_Do = (\<lambda>req. Inr resp_ok),
       ReqBody_Close_ok = True, ClientBody_Close_ok = True, Copy_fails_after = None,
       RespBody_Close_ok = True, QuotaPerUnit = Fin 500000, int_impl = (\<lambda>f. - (2 ^ 63)),
       GetModelRatio = (\<lambda>m. Fin 15), GetGroupRatio = (\<lambda>g. Fin 1),
       Sprintf_ratios = (\<lambda>m g. ''ratios''),
       PostConsumeTokenQuota_err = None, CacheUpdateUserQuota_err = None \<rparr>"

definition req_ok :: Request where
  "req_ok =
     \<lparr> ReqMethod = ''POST'', ReqURL = ''https://api.openai.com/v1/audio/transcriptions'',
       ReqAuthorization = ''Bearer sk-1'',
       ReqContentType = ''multipart/form-data; boundary=b'', ReqAccept = [],
       ReqFormFile = (''file'', ''a.wav'', wav_10s),
       ReqFields = [(''model'', ''whisper-1''), (''prompt'', []), (''response_format'', ''json''),
                    (''temperature'', ''0''), (''language'', ''en'')] \<rparr>"



text \<open>An upload of four bytes, and an upstream that answers 201.\<close>

definition form_short :: AudioTranscriptionsRequest where
  "form_short = form_wav\<lparr>File := \<lparr> Filename = ''a.wav'', Content = bytes_of ''RIFF'' \<rparr>\<rparr>"

definition deps_created :: AudioDeps where
  "deps_created = deps_ok\<lparr>httpClient_Do := (\<lambda>req. Inr (resp_ok\<lparr>RespStatusCode := 201\<rparr>))\<rparr>"

text \<open>
  An upload whose header gives a data size of 9280 at a byte rate of 16000. The float64
  quotient is the value nearest to 29/50, which lies below it.
\<close>

definition wav_058 :: "byte list" where
  "wav_058 = bytes_of ''RIFF'' @ [100, 36, 0, 0] @ bytes_of ''WAVE'' @ bytes_of ''fmt ''
       @ [16, 0, 0, 0, 1, 0, 1, 0, 128, 62, 0, 0, 128, 62, 0, 0, 1, 0, 8, 0]
       @ bytes_of ''data'' @ [64, 36, 0, 0]"

definition hdr_058 :: WAVHeader where
  "hdr_058 = hdr_10s\<lparr> FileSize := 9316, DataSize := 9280 \<rparr>"

definition file_058 :: FileHeader where
  "file_058 = \<lparr> Filename = ''b.wav'', Content = wav_058 \<rparr>"

definition dur_058 :: rat where
  "dur_058 = 5224175567749775 / 9007199254740992"

text \<open>The float64 nearest to 3/50, the duration for a data size of 960 at 16000.\<close>

definition dur_006 :: rat where
  "dur_006 = 1080863910568919 / 18014398509481984"

text \<open>The float64 nearest to 0.006.\<close>

definition c_006 :: rat where
  "c_006 = 3458764513820541 / 576460752303423488"

text \<open>A channel state with every channel enabled and no record yet.\<close>

definition all_enabled :: ChannelState where
  "all_enabled = \<lparr> enabled = (\<lambda>i. True), diagnostics = [] \<rparr>"



section \<open>Rounding to float64\<close>

lemma pow2_pos: "0 < pow2 k"
  by (simp add: pow2_def)

lemma pow2_nat: "0 \<le> k \<Longrightarrow> pow2 k = 2 ^ nat k"
  by (simp add: pow2_def)

lemma pow2_Suc: "pow2 (k + 1) = 2 * pow2 k"
proof (cases "0 \<le> k")
  case True
  then show ?thesis by (simp add: pow2_def nat_add_distrib)
next
  case False
  then have "nat (- k) = Suc (nat (- (k + 1)))" by simp
  then show ?thesis using False by (simp add: pow2_def)
qed

text \<open>The exponent is the binary exponent: \<open>2 ^ e \<le> a < 2 ^ (e + 1)\<close>.\<close>

lemma expo_bounds:
  assumes "0 < a"
  shows "pow2 (expo a) \<le> a \<and> a < pow2 (expo a + 1)"
proof (cases "1 \<le> a")
  case True
  let ?n = "\<lfloor>a\<rfloor>"
  have n: "0 < ?n" using True by simp
  have e: "expo a = bitlen ?n - 1" using True by (simp add: expo_def)
  have b: "2 ^ nat (bitlen ?n - 1) \<le> ?n" "?n < 2 ^ nat (bitlen ?n)"
    using bitlen_bounds [OF n] by simp_all
  have "bitlen ?n \<noteq> 0" using n by (simp add: bitlen_eq_zero_iff)
  then have p: "0 \<le> bitlen ?n - 1" using bitlen_nonneg [of ?n] by linarith
  have "(2 :: rat) ^ nat (bitlen ?n - 1) = of_int (2 ^ nat (bitlen ?n - 1))" by simp
  also have "\<dots> \<le> of_int ?n" using b(1) by (simp only: of_int_le_iff)
  also have "\<dots> \<le> a" by simp
  finally have lo: "pow2 (expo a) \<le> a" using p by (simp add: e pow2_nat)
  have "?n + 1 \<le> 2 ^ nat (bitlen ?n)" using b(2) by simp
  then have "(of_int (?n + 1) :: rat) \<le> of_int (2 ^ nat (bitlen ?n))" by (simp only: of_int_le_iff)
  moreover have "a < of_int (?n + 1)" by linarith
  ultimately have "a < 2 ^ nat (bitlen ?n)" by simp
  then have hi: "a < pow2 (expo a + 1)" using p by (simp add: e pow2_nat)
  show ?thesis using lo hi by simp
next
  case False
  let ?m = "\<lceil>1 / a\<rceil> - 1"
  have a1: "a < 1" using False by simp
  have i: "1 < 1 / a" using assms a1 by simp
  have m: "0 < ?m" using i by (simp add: less_ceiling_iff)
  have e: "expo a = - bitlen ?m" using False by (simp add: expo_def)
  have b: "2 ^ nat (bitlen ?m - 1) \<le> ?m" "?m < 2 ^ nat (bitlen ?m)"
    using bitlen_bounds [OF m] by simp_all
  have "bitlen ?m \<noteq> 0" using m by (simp add: bitlen_eq_zero_iff)
  then have p: "0 < bitlen ?m" using bitlen_nonneg [of ?m] by linarith
  have c: "\<lceil>1 / a\<rceil> \<le> 2 ^ nat (bitlen ?m)" using b(2) by simp
  have "1 / a \<le> of_int \<lceil>1 / a\<rceil>" by (rule le_of_int_ceiling)
  also have "\<dots> \<le> of_int (2 ^ nat (bitlen ?m))" using c by (simp only: of_int_le_iff)
  also have "\<dots> = 2 ^ nat (bitlen ?m)" by simp
  finally have u: "1 / a \<le> 2 ^ nat (bitlen ?m)" .
  have lo: "pow2 (expo a) \<le> a"
  proof -
    have "1 \<le> a * 2 ^ nat (bitlen ?m)" using u assms by (simp add: field_simps)
    then have "1 / 2 ^ nat (bitlen ?m) \<le> a" by (simp add: field_simps)
    then show ?thesis using p by (simp add: e pow2_def)
  qed
  have "(2 :: rat) ^ nat (bitlen ?m - 1) = of_int (2 ^ nat (bitlen ?m - 1))" by simp
  also have "\<dots> \<le> of_int ?m" using b(1) by (simp only: of_int_le_iff)
  also have "\<dots> < 1 / a" using of_int_ceiling_diff_one_le [of "1 / a"] by linarith
  finally have l: "2 ^ nat (bitlen ?m - 1) < 1 / a" .
  have hi: "a < pow2 (expo a + 1)"
  proof -
    have "a * 2 ^ nat (bitlen ?m - 1) < 1" using l assms by (simp add: field_simps)
    then have "a < 1 / 2 ^ nat (bitlen ?m - 1)" by (simp add: field_simps)
    moreover have "nat (- (- bitlen ?m + 1)) = nat (bitlen ?m - 1)" by simp
    ultimately show ?thesis using p a1 by (simp add: e pow2_def)
  qed
  show ?thesis using lo hi by simp
qed

text \<open>No integer is nearer than the rounded one.\<close>

lemma round_even_nearest: "\<bar>of_int (round_even x) - x\<bar> \<le> \<bar>of_int k - x\<bar>"
proof -
  have f: "of_int \<lfloor>x\<rfloor> \<le> x" "x < of_int \<lfloor>x\<rfloor> + 1" by linarith+
  consider "k \<le> \<lfloor>x\<rfloor>" | "\<lfloor>x\<rfloor> + 1 \<le> k" by linarith
  then show ?thesis
  proof cases
    case 1
    then have "(of_int k :: rat) \<le> of_int \<lfloor>x\<rfloor>" by (simp only: of_int_le_iff)
    then show ?thesis using f by (auto simp add: round_even_def Let_def)
  next
    case 2
    then have "(of_int (\<lfloor>x\<rfloor> + 1) :: rat) \<le> of_int k" by (simp only: of_int_le_iff)
    then have "of_int \<lfloor>x\<rfloor> + 1 \<le> (of_int k :: rat)" by simp
    then show ?thesis using f by (auto simp add: round_even_def Let_def)
  qed
qed

text \<open>
  No multiple of the unit in the last place is nearer to \<open>a\<close> than its rounding: the
  rounding is to the nearest value of the format at that exponent.
\<close>

lemma round_abs_nearest:
  assumes "0 < a"
  shows "\<bar>round_abs a - a\<bar> \<le> \<bar>of_int k * pow2 (max (expo a) (- 1022) - 52) - a\<bar>"
proof -
  let ?u = "pow2 (max (expo a) (- 1022) - 52)"
  have u: "0 < ?u" by (rule pow2_pos)
  have r: "round_abs a = of_int (round_even (a / ?u)) * ?u"
    by (simp add: round_abs_def Let_def)
  have s: "\<bar>of_int n * ?u - a\<bar> = \<bar>of_int n - a / ?u\<bar> * ?u" for n :: int
  proof -
    have "of_int n * ?u - a = (of_int n - a / ?u) * ?u" using u by (simp add: field_simps)
    then show ?thesis using u by (simp add: abs_mult)
  qed
  have "\<bar>of_int (round_even (a / ?u)) - a / ?u\<bar> * ?u \<le> \<bar>of_int k - a / ?u\<bar> * ?u"
    using round_even_nearest [of "a / ?u" k] u by (simp only: mult_le_cancel_right_pos)
  then show ?thesis by (simp only: r s)
qed

lemma round_even_nonneg: "0 \<le> x \<Longrightarrow> 0 \<le> round_even x"
  by (auto simp add: round_even_def Let_def)

lemma round_even_of_int: "round_even (of_int z) = z"
  by (simp add: round_even_def)

lemma round_abs_nonneg: "0 \<le> a \<Longrightarrow> 0 \<le> round_abs a"
proof -
  assume a: "0 \<le> a"
  define u where "u = pow2 (max (expo a) (- 1022) - 52)"
  have u: "0 < u" unfolding u_def by (rule pow2_pos)
  have "0 \<le> a / u" using a u by simp
  then have "0 \<le> round_even (a / u)" by (rule round_even_nonneg)
  then have "0 \<le> of_int (round_even (a / u)) * u" using u by simp
  then show ?thesis by (simp add: round_abs_def Let_def u_def)
qed

text \<open>Rounding keeps the sign.\<close>

lemma round64_not_negative: "0 \<le> x \<Longrightarrow> not_negative (round64 x)"
  using round_abs_nonneg [of "\<bar>x\<bar>"] by (auto simp add: round64_def Let_def)

lemma fmul_not_negative:
  "not_negative x \<Longrightarrow> not_negative y \<Longrightarrow> not_negative (fmul x y)"
  by (cases x; cases y) (auto simp add: round64_not_negative inf_of_sign_def)

lemma fdiv_not_negative:
  "not_negative x \<Longrightarrow> 0 < b \<Longrightarrow> not_negative (fdiv x (Fin b))"
  by (cases x) (auto simp add: round64_not_negative inf_of_sign_def)

lemma expo_of_int: "1 \<le> n \<Longrightarrow> expo (of_int n) = bitlen n - 1"
  by (simp add: expo_def)

lemma round_abs_of_int:
  assumes "1 \<le> n" and "n < 2 ^ 53"
  shows "round_abs (of_int n) = of_int n"
proof -
  define j where "j = bitlen n - 1"
  have b: "2 ^ nat (bitlen n - 1) \<le> n"
    using bitlen_bounds [of n] assms(1) by auto
  have j0: "0 \<le> j"
    using bitlen_eq_zero_iff [of n] bitlen_nonneg [of n] assms(1) unfolding j_def by linarith
  have h: "2 ^ nat j < (2 :: int) ^ 53" using b assms(2) unfolding j_def by linarith
  have "nat j < 53" by (rule power_less_imp_less_exp [OF _ h]) simp
  then have j52: "j \<le> 52" by simp
  define k where "k = nat (52 - j)"
  have e: "max (expo (of_int n)) (- 1022) - 52 = j - 52"
    using assms(1) expo_of_int [of n] j0 by (simp add: j_def)
  have u: "pow2 (j - 52) = 1 / 2 ^ k"
    using j52 by (auto simp add: pow2_def k_def)
  have "round_abs (of_int n) = of_int (round_even (of_int n / pow2 (j - 52))) * pow2 (j - 52)"
    by (simp only: round_abs_def Let_def e)
  also have "\<dots> = of_int (round_even (of_int (n * 2 ^ k))) * (1 / 2 ^ k)"
    by (simp add: u)
  also have "\<dots> = of_int n"
    by (simp only: round_even_of_int) simp
  finally show ?thesis .
qed

text \<open>An integer of at most 53 bits is a float64: its conversion is exact.\<close>

lemma round64_of_int:
  assumes "0 \<le> n" and "n < 2 ^ 53"
  shows "round64 (of_int n) = Fin (of_int n)"
proof (cases "n = 0")
  case True
  then show ?thesis by (simp add: round64_def)
next
  case False
  with assms have n: "1 \<le> n" by simp
  have "(of_int n :: rat) < 2 ^ 53"
    using assms(2) by (metis of_int_less_numeral_power_cancel_iff)
  also have "\<dots> < pow2 1024" by (simp add: pow2_def)
  finally have lt: "\<not> pow2 1024 \<le> (of_int n :: rat)" by simp
  have a: "\<bar>of_int n :: rat\<bar> = of_int n" using n by simp
  show ?thesis
    unfolding round64_def Let_def a round_abs_of_int [OF n assms(2)]
    using n lt by simp
qed

lemma float64_of_uint32: "float64_of_int (uint (w :: 32 word)) = Fin (of_int (uint w))"
proof -
  have "uint w < 2 ^ 32" using uint_bounded [of w] by simp
  moreover have "(2 :: int) ^ 32 < 2 ^ 53" by simp
  ultimately have "uint w < 2 ^ 53" by (rule less_trans)
  then show ?thesis unfolding float64_of_int_def by (intro round64_of_int) simp_all
qed

lemma float64_of_size:
  "0 \<le> n \<Longrightarrow> n < 2 ^ 53 \<Longrightarrow> float64_of_int n = Fin (of_int n)"
  unfolding float64_of_int_def by (rule round64_of_int)

subsection \<open>The values of the concrete runs\<close>

lemma round64_10: "round64 10 = Fin 10"
  using round64_of_int [of 10] by simp

lemma round64_1: "round64 1 = Fin 1"
  using round64_of_int [of 1] by simp

lemma round64_50: "round64 50 = Fin 50"
  using round64_of_int [of 50] by simp

lemma round64_500: "round64 500 = Fin 500"
  using round64_of_int [of 500] by simp

lemma round64_006: "round64 (3 / 500) = Fin c_006"
  unfolding c_006_def by code_simp

lemma round64_058: "round64 (29 / 50) = Fin dur_058"
  unfolding dur_058_def by code_simp

lemma round64_006_duration: "round64 (3 / 50) = Fin dur_006"
  unfolding dur_006_def by code_simp

lemma round64_3000: "round64 (500000 * c_006) = Fin 3000"
  unfolding c_006_def by code_simp

text \<open>With the quota per unit at 500000, a second costs exactly 50.\<close>

lemma rate_500000: "fdiv (fmul (Fin 500000) (round64 (3 / 500))) (Fin 60) = Fin 50"
  by (simp add: round64_006 round64_3000 round64_50)

lemma round64_058_50: "round64 (dur_058 * 50) = Fin (8162774324609023 / 281474976710656)"
  unfolding dur_058_def by code_simp

lemma round64_006_50: "round64 (dur_006 * 50) = Fin 3"
  unfolding dur_006_def by code_simp

lemma quota_10s: "audio_quota impl (Fin 500000) (Fin 10) = 500"
  by (simp add: audio_quota_def Let_def rate_500000 round64_500 go_int_def trunc_def)

lemma trunc_058: "trunc (8162774324609023 / 281474976710656) = 28"
  by code_simp

lemma quota_058: "audio_quota impl (Fin 500000) (Fin dur_058) = 28"
  by (simp add: audio_quota_def Let_def rate_500000 round64_058_50 go_int_def trunc_058)

lemma quota_006: "audio_quota impl (Fin 500000) (Fin dur_006) = 3"
  by (simp add: audio_quota_def Let_def rate_500000 round64_006_50 go_int_def trunc_def)

section \<open>The header and the duration\<close>

lemma binary_Read_None: "binary_Read f = None \<longleftrightarrow> length f < 44"
  by (simp add: binary_Read_def)

lemma binary_Read_fields:
  assumes "binary_Read f = Some h"
  shows "RIFF h = take 4 f" and "WAVE h = take 4 (drop 8 f)"
    and "ByteRate h = Uint32 (take 4 (drop 28 f))" and "DataSize h = Uint32 (take 4 (drop 40 f))"
  using assms by (auto simp add: binary_Read_def slice_def split: if_splits)

lemma estimate_valid:
  assumes "RIFF h = bytes_of ''RIFF''" and "WAVE h = bytes_of ''WAVE''"
      and "0 < uint (ByteRate h)"
  shows "estimate_duration h n
           = round64 (of_int (uint (DataSize h)) / of_int (uint (ByteRate h)))"
proof -
  from assms(3) have nz: "(of_int (uint (ByteRate h)) :: rat) \<noteq> 0" by linarith
  show ?thesis
    unfolding estimate_duration_def float64_of_uint32 using assms(1,2) nz
    by (simp del: of_int_eq_0_iff)
qed

lemma estimate_fallback:
  "RIFF h \<noteq> bytes_of ''RIFF'' \<or> WAVE h \<noteq> bytes_of ''WAVE'' \<Longrightarrow>
   estimate_duration h n = fdiv (float64_of_int n) (Fin 16000)"
  by (auto simp add: estimate_duration_def)

lemma fallback_value:
  "0 \<le> n \<Longrightarrow> n < 2 ^ 53 \<Longrightarrow>
   fdiv (float64_of_int n) (Fin 16000) = round64 (of_int n / 16000)"
  by (simp add: float64_of_size)

text \<open>
  With valid magic and a byte rate of zero the division is a float division by zero: the
  estimate is not a finite number, and the quota computed from it is left to the
  implementation.
\<close>

lemma estimate_zero_byte_rate:
  assumes "RIFF h = bytes_of ''RIFF''" and "WAVE h = bytes_of ''WAVE''" and "ByteRate h = 0"
  shows "estimate_duration h n = (if DataSize h = 0 then NaN else PInf)"
proof (cases "DataSize h = 0")
  case True
  then show ?thesis
    using assms float64_of_uint32 [of 0]
    by (simp add: estimate_duration_def inf_of_sign_def)
next
  case False
  then have "uint (DataSize h) \<noteq> 0" by (simp add: uint_0_iff)
  moreover have "0 \<le> uint (DataSize h)" by simp
  ultimately have "0 < uint (DataSize h)" by linarith
  then have pos: "(0 :: rat) < of_int (uint (DataSize h))" by linarith
  then have nz: "(of_int (uint (DataSize h)) :: rat) \<noteq> 0" by linarith
  have z: "float64_of_int (uint (ByteRate h)) = Fin 0"
    using assms(3) float64_of_uint32 [of 0] by simp
  show ?thesis
    unfolding estimate_duration_def float64_of_uint32 [of "DataSize h"] z
    using assms(1,2) False pos nz by (simp add: inf_of_sign_def)
qed

lemma quota_of_infinite_duration:
  "audio_quota impl (Fin 500000) PInf = impl PInf"
  by (simp add: audio_quota_def Let_def rate_500000 go_int_def inf_of_sign_def)

lemma wav_10s_read: "binary_Read wav_10s = Some hdr_10s"
  by (simp add: wav_10s_def hdr_10s_def bytes_of_def binary_Read_def slice_def Uint32_def Uint16_def)

lemma wav_058_read: "binary_Read wav_058 = Some hdr_058"
  by (simp add: wav_058_def hdr_058_def hdr_10s_def bytes_of_def binary_Read_def slice_def
      Uint32_def Uint16_def)

lemma ogg_length: "length (Content file_ogg) = 16000"
  by (simp add: file_ogg_def bytes_of_def)

lemma ogg_magic: "take 4 (Content file_ogg) \<noteq> bytes_of ''RIFF''"
  by (simp add: file_ogg_def bytes_of_def)

lemma duration_10s: "estimate_duration hdr_10s n = Fin 10"
proof -
  have "estimate_duration hdr_10s n = round64 (160000 / 16000)"
    using estimate_valid [of hdr_10s n] by (simp add: hdr_10s_def)
  then show ?thesis by (simp add: round64_10)
qed

text \<open>
  Claim C1. When the first 44 bytes of the upload are read as a header \<open>h\<close> (magic in
  bytes 0 to 3 and 8 to 11, byte rate in bytes 28 to 31, data size in bytes 40 to 43, little
  endian): if both magic values match and the byte rate is positive, the estimated duration
  is the float64 quotient of the data size by the byte rate, that is the float64 nearest to
  the exact quotient; if either magic value does not match, it is the float64 quotient of
  the size of the file (converted to float64) by 16000, which for a size below \<open>2 ^ 53\<close>
  is the float64 nearest to the exact quotient.
\<close>

theorem estimate_duration_by_header:
  assumes "binary_Read (Content fh) = Some h"
  shows "RIFF h = take 4 (Content fh) \<and> WAVE h = take 4 (drop 8 (Content fh))
       \<and> ByteRate h = Uint32 (take 4 (drop 28 (Content fh)))
       \<and> DataSize h = Uint32 (take 4 (drop 40 (Content fh)))
       \<and> (RIFF h = bytes_of ''RIFF'' \<and> WAVE h = bytes_of ''WAVE'' \<and> 0 < uint (ByteRate h) \<longrightarrow>
            estimate_duration h (Size fh)
              = round64 (of_int (uint (DataSize h)) / of_int (uint (ByteRate h))))
       \<and> (RIFF h \<noteq> bytes_of ''RIFF'' \<or> WAVE h \<noteq> bytes_of ''WAVE'' \<longrightarrow>
            estimate_duration h (Size fh)
              = fdiv (float64_of_int (int (length (Content fh)))) (Fin 16000)
          \<and> (length (Content fh) < 2 ^ 53 \<longrightarrow>
               estimate_duration h (Size fh)
                 = round64 (of_int (int (length (Content fh))) / 16000)))"
proof -
  have f: "fdiv (float64_of_int (int (length (Content fh)))) (Fin 16000)
             = round64 (of_int (int (length (Content fh))) / 16000)"
    if "length (Content fh) < 2 ^ 53"
  proof -
    have "int (length (Content fh)) < 2 ^ 53" using that by (simp add: of_nat_less_numeral_power_cancel_iff)
    then show ?thesis by (intro fallback_value) simp_all
  qed
  show ?thesis
    using binary_Read_fields [OF assms] estimate_valid [of h "Size fh"]
      estimate_fallback [of h "Size fh"] f
    by (auto simp add: Size_def)
qed

theorem estimate_duration_by_header_witness:
  "binary_Read (Content (File form_wav)) = Some hdr_10s
   \<and> RIFF hdr_10s = bytes_of ''RIFF'' \<and> WAVE hdr_10s = bytes_of ''WAVE''
   \<and> 0 < uint (ByteRate hdr_10s)
   \<and> estimate_duration hdr_10s (Size (File form_wav)) = Fin 10
   \<and> binary_Read (Content file_058) = Some hdr_058
   \<and> uint (DataSize hdr_058) = 9280 \<and> uint (ByteRate hdr_058) = 16000
   \<and> estimate_duration hdr_058 (Size file_058) = Fin dur_058
   \<and> dur_058 < 29 / 50
   \<and> binary_Read (Content file_ogg) \<noteq> None
   \<and> RIFF (the (binary_Read (Content file_ogg))) \<noteq> bytes_of ''RIFF''
   \<and> length (Content file_ogg) < 2 ^ 53
   \<and> estimate_duration (the (binary_Read (Content file_ogg))) (Size file_ogg) = Fin 1"
proof -
  have r: "binary_Read (Content (File form_wav)) = Some hdr_10s"
    by (simp add: form_wav_def wav_10s_read)
  have a: "RIFF hdr_10s = bytes_of ''RIFF'' \<and> WAVE hdr_10s = bytes_of ''WAVE''
      \<and> 0 < uint (ByteRate hdr_10s)"
    by (simp add: hdr_10s_def)
  have q: "(of_int (uint (DataSize hdr_10s)) :: rat) / of_int (uint (ByteRate hdr_10s)) = 10"
    by (simp add: hdr_10s_def)
  have v: "estimate_duration hdr_10s (Size (File form_wav)) = Fin 10"
    using estimate_duration_by_header [OF r] a q by (simp add: round64_10)
  have r2: "binary_Read (Content file_058) = Some hdr_058"
    by (simp add: file_058_def wav_058_read)
  have a2: "RIFF hdr_058 = bytes_of ''RIFF'' \<and> WAVE hdr_058 = bytes_of ''WAVE''
      \<and> 0 < uint (ByteRate hdr_058) \<and> uint (DataSize hdr_058) = 9280
      \<and> uint (ByteRate hdr_058) = 16000"
    by (simp add: hdr_058_def hdr_10s_def)
  have v2: "estimate_duration hdr_058 (Size file_058) = Fin dur_058"
    using estimate_duration_by_header [OF r2] a2 by (simp add: round64_058)
  have lt: "dur_058 < 29 / 50" by (simp add: dur_058_def)
  obtain g where g: "binary_Read (Content file_ogg) = Some g"
    using binary_Read_None [of "Content file_ogg"] by (auto simp add: ogg_length)
  have m: "RIFF g \<noteq> bytes_of ''RIFF''"
    using estimate_duration_by_header [OF g] ogg_magic by simp
  have c: "float64_of_int 16000 = Fin 16000"
    using float64_of_size [of 16000] by simp
  have f: "estimate_duration g (Size file_ogg) = Fin 1"
    using estimate_duration_by_header [OF g] m by (simp add: ogg_length round64_1 c)
  show ?thesis using r a v r2 a2 v2 lt g m f by (simp add: ogg_length)
qed

section \<open>The quota\<close>

lemma trunc_nonneg: "0 \<le> q \<Longrightarrow> trunc q = \<lfloor>q\<rfloor>"
  by (simp add: trunc_def)

lemma accounting_200_hd:
  "RespStatusCode resp = 200 \<Longrightarrow>
   hd (accounting d c dur resp)
     = PostConsumeTokenQuota (GetInt c ''token_id'') (audio_quota (int_impl d) (QuotaPerUnit d) dur)"
  by (simp add: accounting_def Let_def)

text \<open>The float64 product of the quota is not negative when its factors are not.\<close>

lemma quota_value_not_negative:
  assumes "0 \<le> dur" and "0 \<le> qpu"
  shows "not_negative (fmul (Fin dur) (fdiv (fmul (Fin qpu) (round64 0.006)) (Fin 60)))"
proof -
  have c: "not_negative (round64 0.006)" by (rule round64_not_negative) simp
  have "not_negative (fmul (Fin qpu) (round64 0.006))"
    using assms(2) c by (intro fmul_not_negative) simp_all
  then have "not_negative (fdiv (fmul (Fin qpu) (round64 0.006)) (Fin 60))"
    by (rule fdiv_not_negative) simp
  then show ?thesis using assms(1) by (intro fmul_not_negative) simp_all
qed

text \<open>
  Claim C2, as stated, fails. The quota is computed in float64, each operation rounded.
  With the quota per unit at 500000: for a data size of 960 at a byte rate of 16000 the
  duration is the float64 \<open>dur_006\<close> and the quota is 3, while the floor of
  \<open>dur_006 * 500000 * 0.006 / 60\<close> is 2; for a data size of 9280 the duration is
  \<open>dur_058\<close> and the quota is 28, while the floor for the exact quotient 9280/16000 is
  29. And with valid magic and a byte rate of zero the duration is the positive infinity,
  whose conversion to \<^verbatim>\<open>int\<close> is the least \<^verbatim>\<open>int\<close> where the platform converts so (as
  amd64 does): a negative quota.
\<close>

theorem quota_off_floor_or_negative:
  "fdiv (float64_of_int 960) (float64_of_int 16000) = Fin dur_006
   \<and> 0 \<le> dur_006
   \<and> audio_quota (int_impl deps_ok) (Fin 500000) (Fin dur_006) = 3
   \<and> \<lfloor>dur_006 * 500000 * 0.006 / 60\<rfloor> = 2
   \<and> fdiv (float64_of_int 9280) (float64_of_int 16000) = Fin dur_058
   \<and> audio_quota (int_impl deps_ok) (Fin 500000) (Fin dur_058) = 28
   \<and> \<lfloor>(9280 / 16000 :: rat) * 500000 * 0.006 / 60\<rfloor> = 29
   \<and> estimate_duration (hdr_10s\<lparr>ByteRate := 0\<rparr>) 44 = PInf
   \<and> audio_quota (int_impl deps_ok) (Fin 500000) PInf = - (2 ^ 63)
   \<and> audio_quota (int_impl deps_ok) (Fin 500000) PInf < 0"
proof -
  have 1: "fdiv (float64_of_int 960) (float64_of_int 16000) = Fin dur_006"
    using float64_of_size [of 960] float64_of_size [of 16000]
    by (simp add: round64_006_duration)
  have 2: "fdiv (float64_of_int 9280) (float64_of_int 16000) = Fin dur_058"
    using float64_of_size [of 9280] float64_of_size [of 16000]
    by (simp add: round64_058)
  have 3: "\<lfloor>dur_006 * 500000 * 0.006 / 60\<rfloor> = 2" unfolding dur_006_def by code_simp
  have 4: "estimate_duration (hdr_10s\<lparr>ByteRate := 0\<rparr>) 44 = PInf"
    using estimate_zero_byte_rate [of "hdr_10s\<lparr>ByteRate := 0\<rparr>" 44]
    by (simp add: hdr_10s_def)
  have 5: "audio_quota (int_impl deps_ok) (Fin 500000) PInf = - (2 ^ 63)"
    by (simp add: quota_of_infinite_duration deps_ok_def)
  have 6: "(0 :: rat) \<le> dur_006" by (simp add: dur_006_def)
  show ?thesis using 1 2 3 4 5 6 by (simp add: quota_006 quota_058)
qed

text \<open>
  Claim C2, amended. For a finite duration \<open>dur \<ge> 0\<close> and a quota per unit \<open>qpu \<ge> 0\<close>
  whose float64 product \<open>x\<close>, computed as the code does (the duration times the quotient by
  60 of the quota per unit times the float64 of 0.006, each operation rounded), is finite
  and in the range of the 64-bit \<^verbatim>\<open>int\<close>: \<open>x\<close> is not negative, the quota is the floor
  of \<open>x\<close>, it is not negative, it is the truncation toward zero of \<open>x\<close>, and it is the
  quota debited from the token when the upstream answered 200.
\<close>

theorem audio_quota_float:
  assumes "0 \<le> dur" and "0 \<le> qpu"
      and "fmul (Fin dur) (fdiv (fmul (Fin qpu) (round64 0.006)) (Fin 60)) = Fin x"
      and "x < 2 ^ 63"
  shows "0 \<le> x
       \<and> audio_quota impl (Fin qpu) (Fin dur) = \<lfloor>x\<rfloor>
       \<and> 0 \<le> audio_quota impl (Fin qpu) (Fin dur)
       \<and> audio_quota impl (Fin qpu) (Fin dur) = trunc x
       \<and> (RespStatusCode resp = 200 \<and> QuotaPerUnit d = Fin qpu \<and> int_impl d = impl \<longrightarrow>
            hd (accounting d c (Fin dur) resp)
              = PostConsumeTokenQuota (GetInt c ''token_id'') \<lfloor>x\<rfloor>)"
proof -
  have nn: "0 \<le> x"
    using quota_value_not_negative [OF assms(1,2)] assms(3) by simp
  have t: "trunc x = \<lfloor>x\<rfloor>" using nn by (rule trunc_nonneg)
  have lo: "0 \<le> \<lfloor>x\<rfloor>" using nn by simp
  have hi: "\<lfloor>x\<rfloor> < 2 ^ 63" using assms(4) by (simp add: floor_less_iff)
  have q: "audio_quota impl (Fin qpu) (Fin dur) = \<lfloor>x\<rfloor>"
    unfolding audio_quota_def Let_def assms(3) using t lo hi by (simp add: go_int_def)
  have "hd (accounting d c (Fin dur) resp) = PostConsumeTokenQuota (GetInt c ''token_id'') \<lfloor>x\<rfloor>"
    if "RespStatusCode resp = 200" and "QuotaPerUnit d = Fin qpu" and "int_impl d = impl"
    using that q accounting_200_hd [of resp d c "Fin dur"] by simp
  then show ?thesis using q lo t nn by simp
qed

theorem audio_quota_float_witness:
  "(0 :: rat) \<le> 10 \<and> (0 :: rat) \<le> 500000
   \<and> fmul (Fin 10) (fdiv (fmul (Fin 500000) (round64 0.006)) (Fin 60)) = Fin 500
   \<and> (500 :: rat) < 2 ^ 63
   \<and> audio_quota (int_impl deps_ok) (Fin 500000) (Fin 10) = 500
   \<and> RespStatusCode resp_ok = 200 \<and> QuotaPerUnit deps_ok = Fin 500000
   \<and> hd (accounting deps_ok ctx_audio (Fin 10) resp_ok) = PostConsumeTokenQuota 5 500
   \<and> 0 \<le> dur_058
   \<and> fmul (Fin dur_058) (fdiv (fmul (Fin 500000) (round64 0.006)) (Fin 60))
       = Fin (8162774324609023 / 281474976710656)
   \<and> audio_quota (int_impl deps_ok) (Fin 500000) (Fin dur_058) = 28"
proof -
  have p: "fmul (Fin 10) (fdiv (fmul (Fin 500000) (round64 0.006)) (Fin 60)) = Fin 500"
    by (simp add: rate_500000 round64_500)
  have p2: "fmul (Fin dur_058) (fdiv (fmul (Fin 500000) (round64 0.006)) (Fin 60))
       = Fin (8162774324609023 / 281474976710656)"
    by (simp add: rate_500000 round64_058_50)
  have d: "(0 :: rat) \<le> dur_058" by (simp add: dur_058_def)
  have f: "\<lfloor>8162774324609023 / 281474976710656 :: rat\<rfloor> = 28"
    using trunc_058 by (simp add: trunc_def)
  have lt: "(8162774324609023 / 281474976710656 :: rat) < 2 ^ 63" by simp
  from audio_quota_float [OF _ _ p, of "int_impl deps_ok" resp_ok deps_ok ctx_audio]
    audio_quota_float [OF d _ p2 lt, of "int_impl deps_ok" resp_ok deps_ok ctx_audio]
  show ?thesis
    using p p2 d f by (simp add: resp_ok_def deps_ok_def ctx_audio_def)
qed

section \<open>Strings and numbers\<close>

lemma HasPrefix_prefix: "HasPrefix s p \<longleftrightarrow> prefix p s"
  unfolding HasPrefix_def prefix_def
  by (metis append_eq_conv_conj append_take_drop_id le_add1 length_append)

lemma HasSuffix_suffix: "HasSuffix s p \<longleftrightarrow> suffix p s"
proof
  assume "HasSuffix s p"
  then have "s = take (length s - length p) s @ p"
    by (metis HasSuffix_def append_take_drop_id)
  then show "suffix p s" by (rule suffixI)
next
  assume "suffix p s"
  then obtain zs where "s = zs @ p" by (auto simp: suffix_def)
  then show "HasSuffix s p" by (simp add: HasSuffix_def)
qed

lemma relayMode_of_spec: "relayMode_of path = spec_mode path"
  by (simp add: relayMode_of_def spec_mode_def spec_mode_table_def HasPrefix_prefix
      HasSuffix_suffix)

lemma digits_val_append: "digits_val acc (xs @ ys) = digits_val (digits_val acc xs) ys"
  by (induction xs arbitrary: acc) auto

lemma of_char_digit: "n < 10 \<Longrightarrow> (of_char (char_of (48 + n)) :: nat) = 48 + n"
  by simp

lemma nat_digits_val: "digits_val 0 (nat_digits n) = n"
proof (induction n rule: nat_digits.induct)
  case (1 n)
  show ?case
  proof (cases "n < 10")
    case True
    then show ?thesis by (subst nat_digits.simps) (simp add: of_char_digit)
  next
    case False
    have m: "n mod 10 < 10" by simp
    from False 1 have ih: "digits_val 0 (nat_digits (n div 10)) = n div 10" by simp
    show ?thesis
      using False
      by (subst nat_digits.simps) (simp add: digits_val_append ih of_char_digit [OF m])
  qed
qed

lemma nat_digits_all: "list_all is_digit (nat_digits n)"
proof (induction n rule: nat_digits.induct)
  case (1 n)
  show ?case
  proof (cases "n < 10")
    case True
    then show ?thesis by (subst nat_digits.simps) (simp add: is_digit_def)
  next
    case False
    have m: "n mod 10 < 10" by simp
    from False 1 have ih: "list_all is_digit (nat_digits (n div 10))" by simp
    have "is_digit (char_of (48 + n mod 10))"
      unfolding is_digit_def of_char_digit [OF m] using m by linarith
    then show ?thesis
      using False ih by (subst nat_digits.simps) simp
  qed
qed

lemma nat_digits_ne: "nat_digits n \<noteq> []"
  by (subst nat_digits.simps) simp

lemma hd_nat_digits: "is_digit (hd (nat_digits n))"
  using nat_digits_all [of n] nat_digits_ne [of n] by (cases "nat_digits n") simp_all

lemma not_digit_signs: "\<not> is_digit CHR ''-''" "\<not> is_digit CHR ''+''"
  by (simp_all add: is_digit_def)

text \<open>A number that \<^verbatim>\<open>%d\<close> printed is read back by \<^verbatim>\<open>Atoi\<close>.\<close>

lemma Atoi_Itoa:
  assumes "0 \<le> n" and "n < 2 ^ 63"
  shows "Atoi (Itoa n) = n"
proof -
  have i: "Itoa n = nat_digits (nat n)" using assms by (simp add: Itoa_def)
  have h1: "hd (nat_digits (nat n)) \<noteq> CHR ''-''" "hd (nat_digits (nat n)) \<noteq> CHR ''+''"
    using hd_nat_digits [of "nat n"] not_digit_signs by metis+
  show ?thesis
    unfolding i Atoi_def Let_def using h1 assms
    by (simp add: nat_digits_ne nat_digits_all nat_digits_val)
qed

lemma Atoi_upper: "Atoi s < 2 ^ 63"
  by (simp add: Atoi_def Let_def min_less_iff_disj)

lemma Itoa_0: "Itoa 0 = ''0''"
  by code_simp

lemma Itoa_1: "Itoa 1 = ''1''"
  by code_simp

lemma Itoa_7: "Itoa 7 = ''7''"
  by code_simp

lemma Atoi_0: "Atoi ''0'' = 0"
  by (simp add: Atoi_def is_digit_def)

lemma Atoi_1: "Atoi ''1'' = 1"
  by (simp add: Atoi_def is_digit_def)

lemma Atoi_2: "Atoi ''2'' = 2"
  by (simp add: Atoi_def is_digit_def)

section \<open>Relay: dispatch, retry and the terminal answer\<close>

lemma StatusCode_terminal [simp]: "StatusCode (terminal_error err) = StatusCode err"
  by (simp add: terminal_error_def)

lemma truncate_terminal:
  "OpenAIError.truncate (terminal_error err) =
     \<lparr> Message = (if StatusCode err = 429 then load_saturated_message else Message err),
       Type = Type err, Param = Param err, Code = Code err \<rparr>"
  by (simp add: terminal_error_def OpenAIError.truncate_def)

lemma Relay_failed:
  "pipeline_result d c (relayMode_of (Path c)) = Some err \<Longrightarrow>
   Relay d c = pipeline_call (relayMode_of (Path c)) # relay_failed d c err"
  by (simp add: Relay_def)

lemma pipeline_call_not_answer [simp]: "\<not> is_answer (pipeline_call m)"
  by (cases m) (simp_all add: pipeline_call_def)

lemma pipeline_call_not_disable [simp]: "\<not> is_disable (pipeline_call m)"
  by (cases m) (simp_all add: pipeline_call_def)

lemma answers_retry:
  "0 < retryTimes_of d c \<Longrightarrow>
   filter is_answer (relay_failed d c err) =
     [Redirect 307 (Path c @ ''?retry='' @ Itoa (retryTimes_of d c - 1))]"
  by (simp add: relay_failed_def Let_def)

lemma answers_terminal:
  "\<not> 0 < retryTimes_of d c \<Longrightarrow>
   filter is_answer (relay_failed d c err) =
     [JSON (StatusCode err) (OpenAIError.truncate (terminal_error err))]"
  by (simp add: relay_failed_def Let_def)

lemma retryTimes_of_upper: "RetryTimes d < 2 ^ 63 \<Longrightarrow> retryTimes_of d c < 2 ^ 63"
  using Atoi_upper [of "Query c ''retry''"] by (simp add: retryTimes_of_def Let_def)

lemma disables:
  "filter is_disable (relay_failed d c err) =
     (let e = (if 0 < retryTimes_of d c then err else terminal_error err)
      in if shouldDisableChannel d (OpenAIError.truncate e)
         then [disableChannel_call (GetInt c ''channel_id'') (GetString c ''channel_name'')
                 (Message e)]
         else [])"
  by (simp add: relay_failed_def Let_def)

lemma store_after_append: "store_after (xs @ ys) st = store_after ys (store_after xs st)"
  by (induction xs st rule: store_after.induct) simp_all

lemma disableChannel_disables: "\<not> enabled (disableChannel i n r st) i"
  by (simp add: disableChannel_def)

lemma disableChannel_disabled: "\<not> enabled st i \<Longrightarrow> disableChannel i n r st = st"
  by (simp add: disableChannel_def)

text \<open>Disabling a channel again, under any name and for any reason, changes nothing.\<close>

lemma disableChannel_again:
  "disableChannel i n' r' (disableChannel i n r st) = disableChannel i n r st"
  by (rule disableChannel_disabled) (rule disableChannel_disables)

lemma store_after_relay_failed:
  "store_after (relay_failed d c err) st =
     (if shouldDisableChannel d
           (OpenAIError.truncate (if 0 < retryTimes_of d c then err else terminal_error err))
      then disableChannel (GetInt c ''channel_id'') (GetString c ''channel_name'')
             (Message (if 0 < retryTimes_of d c then err else terminal_error err)) st
      else st)"
  by (simp add: relay_failed_def Let_def)

lemma store_after_pipeline_call [simp]:
  "store_after (pipeline_call m # es) st = store_after es st"
  by (cases m) (simp_all add: pipeline_call_def)

lemma mode_chat: "relayMode_of ''/v1/chat/completions'' = RelayModeChatCompletions"
  by (simp add: relayMode_of_def HasPrefix_def)

lemma mode_img: "relayMode_of ''/v1/images/generations'' = RelayModeImagesGenerations"
  by (simp add: relayMode_of_def HasPrefix_def HasSuffix_def)

lemma mode_emb: "relayMode_of ''/v1/engines/ada/embeddings'' = RelayModeEmbeddings"
  by (simp add: relayMode_of_def HasPrefix_def HasSuffix_def)

lemma mode_unknown: "relayMode_of ''/v1/unknown/path'' = RelayModeUnknown"
  by (simp add: relayMode_of_def HasPrefix_def HasSuffix_def)

lemma fail_chat:
  "pipeline_result (deps_failing err) (ctx_relay ''/v1/chat/completions'' r)
     (relayMode_of (Path (ctx_relay ''/v1/chat/completions'' r))) = Some err"
  by (simp add: ctx_relay_def mode_chat pipeline_result_def deps_failing_def)

lemma budget_2: "retryTimes_of (deps_failing err) (ctx_relay p ''2'') = 2"
  by (simp add: retryTimes_of_def ctx_relay_def Atoi_2)

lemma budget_1: "retryTimes_of (deps_failing err) (ctx_relay p ''1'') = 1"
  by (simp add: retryTimes_of_def ctx_relay_def Atoi_1)

lemma budget_default: "retryTimes_of (deps_failing err) (ctx_relay p []) = 0"
  by (simp add: retryTimes_of_def ctx_relay_def deps_failing_def)

lemma RetryTimes_failing: "RetryTimes (deps_failing err) = 0"
  by (simp add: deps_failing_def)

text \<open>
  Claim C7. The mode of a path is the first match of the ordered table of the
  specification (chat completions, completions, embeddings by prefix or by suffix,
  moderations, image generations, edits, else unknown). \<^verbatim>\<open>Relay\<close> first calls the image
  pipeline when the mode is image generation and the text pipeline for every other mode,
  and when the pipeline reports no error that call is all it does.
\<close>

theorem dispatch_refines_table:
  "relayMode_of (Path c) = spec_mode (Path c)
   \<and> hd (Relay d c) =
       (if relayMode_of (Path c) = RelayModeImagesGenerations
        then relayImageHelper_call RelayModeImagesGenerations
        else relayTextHelper_call (relayMode_of (Path c)))
   \<and> (pipeline_result d c (relayMode_of (Path c)) = None \<longrightarrow> length (Relay d c) = 1)"
  by (cases "relayMode_of (Path c)")
     (simp_all add: relayMode_of_spec [symmetric] Relay_def pipeline_call_def
        split: option.splits)

theorem dispatch_refines_table_witness:
  "relayMode_of (Path (ctx_relay ''/v1/images/generations'' []))
     = spec_mode ''/v1/images/generations''
   \<and> pipeline_result (deps_failing err_429) (ctx_relay ''/v1/images/generations'' [])
        RelayModeImagesGenerations = None
   \<and> Relay (deps_failing err_429) (ctx_relay ''/v1/images/generations'' [])
        = [relayImageHelper_call RelayModeImagesGenerations]
   \<and> hd (Relay (deps_failing err_429) (ctx_relay ''/v1/engines/ada/embeddings'' []))
        = relayTextHelper_call RelayModeEmbeddings
   \<and> hd (Relay (deps_failing err_429) (ctx_relay ''/v1/unknown/path'' []))
        = relayTextHelper_call RelayModeUnknown"
  using dispatch_refines_table [of "ctx_relay ''/v1/images/generations'' []" "deps_failing err_429"]
    dispatch_refines_table [of "ctx_relay ''/v1/engines/ada/embeddings'' []" "deps_failing err_429"]
    dispatch_refines_table [of "ctx_relay ''/v1/unknown/path'' []" "deps_failing err_429"]
  apply (simp add: ctx_relay_def mode_img mode_emb mode_unknown pipeline_result_def
      deps_failing_def)
  apply (cases "Relay (deps_failing err_429) (ctx_relay ''/v1/images/generations'' [])")
   apply (simp_all add: ctx_relay_def deps_failing_def)
  done

lemma Itoa_ne: "Itoa n \<noteq> []"
  by (simp add: Itoa_def nat_digits_ne)

text \<open>
  Claim C3. On a failed attempt whose budget is \<open>retryTimes_of\<close>: without a
  \<^verbatim>\<open>retry\<close> parameter the budget is the default \<^verbatim>\<open>common.RetryTimes\<close>; with a positive
  budget the only answer is the redirect to the same path with \<open>retry\<close> set to the budget
  minus one, a number that is not negative, and every attempt \<open>c'\<close> whose \<open>retry\<close>
  parameter is that text has exactly the budget minus one; with a budget of zero the only
  answer is the error envelope, and no redirect is sent.
\<close>

theorem retry_budget_step:
  assumes fail: "pipeline_result d c (relayMode_of (Path c)) = Some err"
      and range: "RetryTimes d < 2 ^ 63"
  shows "(Query c ''retry'' = [] \<longrightarrow> retryTimes_of d c = RetryTimes d)
       \<and> (0 < retryTimes_of d c \<longrightarrow>
            filter is_answer (Relay d c) =
              [Redirect 307 (Path c @ ''?retry='' @ Itoa (retryTimes_of d c - 1))]
          \<and> Atoi (Itoa (retryTimes_of d c - 1)) = retryTimes_of d c - 1
          \<and> 0 \<le> retryTimes_of d c - 1
          \<and> (Query c' ''retry'' = Itoa (retryTimes_of d c - 1) \<longrightarrow>
                retryTimes_of d c' = retryTimes_of d c - 1
              \<and> retryTimes_of d c' < retryTimes_of d c))
       \<and> (retryTimes_of d c = 0 \<longrightarrow>
            filter is_answer (Relay d c) =
              [JSON (StatusCode err) (OpenAIError.truncate (terminal_error err))])"
proof -
  have a: "Query c ''retry'' = [] \<longrightarrow> retryTimes_of d c = RetryTimes d"
    by (simp add: retryTimes_of_def)
  have b: "filter is_answer (Relay d c) =
              [Redirect 307 (Path c @ ''?retry='' @ Itoa (retryTimes_of d c - 1))]
          \<and> Atoi (Itoa (retryTimes_of d c - 1)) = retryTimes_of d c - 1
          \<and> 0 \<le> retryTimes_of d c - 1
          \<and> (Query c' ''retry'' = Itoa (retryTimes_of d c - 1) \<longrightarrow>
                retryTimes_of d c' = retryTimes_of d c - 1
              \<and> retryTimes_of d c' < retryTimes_of d c)" if pos: "0 < retryTimes_of d c"
  proof -
    have u: "retryTimes_of d c - 1 < 2 ^ 63" using retryTimes_of_upper [OF range, of c] by simp
    have l: "0 \<le> retryTimes_of d c - 1" using pos by simp
    have r: "Atoi (Itoa (retryTimes_of d c - 1)) = retryTimes_of d c - 1"
      using l u by (rule Atoi_Itoa)
    have n: "retryTimes_of d c' = retryTimes_of d c - 1"
      if "Query c' ''retry'' = Itoa (retryTimes_of d c - 1)"
      using that r Itoa_ne [of "retryTimes_of d c - 1"]
      by (simp add: retryTimes_of_def [of d c'] Let_def)
    show ?thesis
      using r l n answers_retry [OF pos, of err]
      by (simp add: Relay_failed [OF fail])
  qed
  have t: "filter is_answer (Relay d c) =
              [JSON (StatusCode err) (OpenAIError.truncate (terminal_error err))]"
    if "retryTimes_of d c = 0"
    using that answers_terminal [of d c err] by (simp add: Relay_failed [OF fail])
  show ?thesis using a b t by blast
qed

theorem retry_budget_step_witness:
  "pipeline_result (deps_failing err_429) (ctx_relay ''/v1/chat/completions'' ''2'')
      (relayMode_of (Path (ctx_relay ''/v1/chat/completions'' ''2''))) = Some err_429
   \<and> RetryTimes (deps_failing err_429) < 2 ^ 63
   \<and> Query (ctx_relay ''/v1/chat/completions'' []) ''retry'' = []
   \<and> retryTimes_of (deps_failing err_429) (ctx_relay ''/v1/chat/completions'' []) = 0
   \<and> filter is_answer (Relay (deps_failing err_429) (ctx_relay ''/v1/chat/completions'' []))
       = [JSON 429 (OpenAIError.truncate (terminal_error err_429))]
   \<and> 0 < retryTimes_of (deps_failing err_429) (ctx_relay ''/v1/chat/completions'' ''2'')
   \<and> filter is_answer (Relay (deps_failing err_429) (ctx_relay ''/v1/chat/completions'' ''2''))
       = [Redirect 307 ''/v1/chat/completions?retry=1'']
   \<and> Atoi (Itoa 1) = 1
   \<and> Query (ctx_relay ''/v1/chat/completions'' ''1'') ''retry'' = Itoa 1
   \<and> retryTimes_of (deps_failing err_429) (ctx_relay ''/v1/chat/completions'' ''1'') = 1"
  using retry_budget_step [OF fail_chat [of err_429 "[]"]]
    retry_budget_step [OF fail_chat [of err_429 "''2''"],
      of "ctx_relay ''/v1/chat/completions'' ''1''"]
    fail_chat [of err_429 "''2''"]
  by (simp add: budget_2 budget_default Itoa_1 RetryTimes_failing)
     (simp add: ctx_relay_def err_429_def)

text \<open>
  Claim C8. On a terminal failure (the budget is not positive) the only answer is one JSON
  envelope with the status code of the error, whose type, parameter and code are those of
  the error, and whose message is the fixed message of line 191 when the status code is
  429 and the message of the error in every other case.
\<close>

theorem terminal_envelope:
  assumes fail: "pipeline_result d c (relayMode_of (Path c)) = Some err"
      and last: "retryTimes_of d c \<le> 0"
  shows "filter is_answer (Relay d c) =
           [JSON (StatusCode err)
              \<lparr> Message = (if StatusCode err = 429 then load_saturated_message
                            else Message err),
                Type = Type err, Param = Param err, Code = Code err \<rparr>]"
  using last answers_terminal [of d c err]
  by (simp add: Relay_failed [OF fail] truncate_terminal)

theorem terminal_envelope_witness:
  "pipeline_result (deps_failing err_429) (ctx_relay ''/v1/chat/completions'' ''0'')
      (relayMode_of (Path (ctx_relay ''/v1/chat/completions'' ''0''))) = Some err_429
   \<and> retryTimes_of (deps_failing err_429) (ctx_relay ''/v1/chat/completions'' ''0'') \<le> 0
   \<and> filter is_answer (Relay (deps_failing err_429) (ctx_relay ''/v1/chat/completions'' ''0''))
      = [JSON 429 \<lparr> Message = load_saturated_message, Type = ''requests'', Param = [],
                     Code = AnyString ''rate_limit_exceeded'' \<rparr>]
   \<and> filter is_answer (Relay (deps_failing err_key) (ctx_relay ''/v1/chat/completions'' ''0''))
      = [JSON 401 \<lparr> Message = ''Incorrect API key'', Type = ''invalid_request_error'',
                     Param = [], Code = AnyString ''invalid_api_key'' \<rparr>]"
  using terminal_envelope [OF fail_chat [of err_429 "''0''"]]
    terminal_envelope [OF fail_chat [of err_key "''0''"]] fail_chat [of err_429 "''0''"]
  by (simp add: retryTimes_of_def ctx_relay_def Atoi_0 err_429_def err_key_def)

text \<open>
  Claim C5, as stated, fails: an attempt that is retried (budget 1, answered by a redirect)
  and whose error matches the disable policy does call \<^verbatim>\<open>disableChannel\<close>.
\<close>

theorem disable_on_retried_attempt:
  "Relay (deps_failing err_key) (ctx_relay ''/v1/chat/completions'' ''1'') =
     [relayTextHelper_call RelayModeChatCompletions,
      Redirect 307 ''/v1/chat/completions?retry=0'',
      SysError ''relay error (channel #7): Incorrect API key'',
      disableChannel_call 7 ''ch7'' ''Incorrect API key'']"
  by (simp add: Relay_failed [OF fail_chat] relay_failed_def budget_1 Itoa_0 Itoa_7
        pipeline_call_def)
     (simp add: ctx_relay_def mode_chat deps_failing_def err_key_def OpenAIError.truncate_def
        Itoa_7)

text \<open>
  Claim C5, amended. On every failed attempt, retried or terminal, \<^verbatim>\<open>disableChannel\<close> is
  called exactly when the error (after the write to its message on a terminal 429) matches
  the disable policy, once, with the channel of the request. Repeated disablement of the
  same channel has no additional observable effect: after an attempt that disabled the
  channel, disabling it again, under any name and for any reason, leaves the enabled
  flags and the diagnostic records as they are, and so does running the failed attempt a
  second time.
\<close>

theorem disable_iff_policy:
  assumes fail: "pipeline_result d c (relayMode_of (Path c)) = Some err"
  shows "filter is_disable (Relay d c) =
           (let e = (if 0 < retryTimes_of d c then err else terminal_error err)
            in if shouldDisableChannel d (OpenAIError.truncate e)
               then [disableChannel_call (GetInt c ''channel_id'')
                       (GetString c ''channel_name'') (Message e)]
               else [])
       \<and> (filter is_disable (Relay d c) \<noteq> [] \<longrightarrow>
            \<not> enabled (store_after (Relay d c) st) (GetInt c ''channel_id'')
          \<and> disableChannel (GetInt c ''channel_id'') name reason (store_after (Relay d c) st)
              = store_after (Relay d c) st)
       \<and> store_after (Relay d c @ Relay d c) st = store_after (Relay d c) st"
proof -
  let ?e = "if 0 < retryTimes_of d c then err else terminal_error err"
  let ?cid = "GetInt c ''channel_id''"
  have r: "Relay d c = pipeline_call (relayMode_of (Path c)) # relay_failed d c err"
    using fail by (rule Relay_failed)
  have f: "filter is_disable (Relay d c) =
           (let e = ?e
            in if shouldDisableChannel d (OpenAIError.truncate e)
               then [disableChannel_call ?cid (GetString c ''channel_name'') (Message e)]
               else [])"
    by (simp add: r disables)
  have s: "store_after (Relay d c) st =
     (if shouldDisableChannel d (OpenAIError.truncate ?e)
      then disableChannel ?cid (GetString c ''channel_name'') (Message ?e) st else st)" for st
    by (simp only: r store_after_pipeline_call store_after_relay_failed)
  have g: "\<not> enabled (store_after (Relay d c) st) ?cid
          \<and> disableChannel ?cid name reason (store_after (Relay d c) st)
              = store_after (Relay d c) st"
    if "filter is_disable (Relay d c) \<noteq> []"
  proof -
    from that f have pol: "shouldDisableChannel d (OpenAIError.truncate ?e)"
      by (simp add: Let_def split: if_splits)
    then have "store_after (Relay d c) st
        = disableChannel ?cid (GetString c ''channel_name'') (Message ?e) st"
      by (simp only: s if_True)
    then show ?thesis by (simp only: disableChannel_disables disableChannel_again) simp
  qed
  have t: "store_after (Relay d c @ Relay d c) st = store_after (Relay d c) st"
    unfolding store_after_append by (subst s) (simp add: s disableChannel_again)
  from f g t show ?thesis by blast
qed

theorem disable_iff_policy_witness:
  "pipeline_result (deps_failing err_key) (ctx_relay ''/v1/chat/completions'' ''0'')
      (relayMode_of (Path (ctx_relay ''/v1/chat/completions'' ''0''))) = Some err_key
   \<and> filter is_disable (Relay (deps_failing err_key) (ctx_relay ''/v1/chat/completions'' ''0''))
     = [disableChannel_call 7 ''ch7'' ''Incorrect API key'']
   \<and> filter is_disable (Relay (deps_failing err_429) (ctx_relay ''/v1/chat/completions'' ''0''))
     = []
   \<and> \<not> enabled (store_after
         (Relay (deps_failing err_key) (ctx_relay ''/v1/chat/completions'' ''0'')) all_enabled) 7
   \<and> disableChannel 7 ''ch7'' ''again''
        (store_after (Relay (deps_failing err_key) (ctx_relay ''/v1/chat/completions'' ''0''))
           all_enabled)
      = store_after (Relay (deps_failing err_key) (ctx_relay ''/v1/chat/completions'' ''0''))
          all_enabled
   \<and> store_after (Relay (deps_failing err_key) (ctx_relay ''/v1/chat/completions'' ''0'')
         @ Relay (deps_failing err_key) (ctx_relay ''/v1/chat/completions'' ''0'')) all_enabled
      = store_after (Relay (deps_failing err_key) (ctx_relay ''/v1/chat/completions'' ''0''))
          all_enabled"
proof -
  let ?c = "ctx_relay ''/v1/chat/completions'' ''0''"
  have k: "filter is_disable (Relay (deps_failing err_key) ?c)
     = [disableChannel_call 7 ''ch7'' ''Incorrect API key'']"
    using disable_iff_policy [OF fail_chat [of err_key "''0''"], of all_enabled]
    by (simp add: retryTimes_of_def Atoi_0 Let_def)
       (simp add: ctx_relay_def deps_failing_def err_key_def terminal_error_def
          OpenAIError.truncate_def)
  have n: "filter is_disable (Relay (deps_failing err_429) ?c) = []"
    using disable_iff_policy [OF fail_chat [of err_429 "''0''"], of all_enabled]
    by (simp add: retryTimes_of_def Atoi_0 Let_def)
       (simp add: ctx_relay_def deps_failing_def err_429_def terminal_error_def
          OpenAIError.truncate_def)
  have cid: "GetInt ?c ''channel_id'' = 7" by (simp add: ctx_relay_def)
  from disable_iff_policy [OF fail_chat [of err_key "''0''"], of all_enabled "''ch7''" "''again''"]
    k n cid fail_chat [of err_key "''0''"]
  show ?thesis by simp
qed

section \<open>RelayAudio: the shape of a run\<close>

lemma acc_copy_headers:
  "filter is_accounting rest = [] \<Longrightarrow> filter is_accounting (copy_headers hs rest) = []"
  by (induction hs rest rule: copy_headers.induct) (simp_all split: list.splits)

lemma acc_copy_body: "filter is_accounting (copy_body d resp) = []"
  by (simp add: copy_body_def write_bytes_def split: option.splits)

lemma acc_forward: "filter is_accounting (forward d resp) = []"
  by (simp add: forward_def acc_copy_headers acc_copy_body)

lemma acc_accounting_steps:
  "filter is_accounting (accounting d c dur resp) =
     (if RespStatusCode resp = 200
      then accounting_steps d c (audio_quota (int_impl d) (QuotaPerUnit d) dur) else [])"
  by (simp add: accounting_def accounting_steps_def Let_def split: option.splits)

lemma accounting_steps_ne: "accounting_steps d c quota \<noteq> []"
  by (simp add: accounting_steps_def)

lemma Do_copy_headers:
  "Do r \<notin> set rest \<Longrightarrow> Do r \<notin> set (copy_headers hs rest)"
  by (induction hs rest rule: copy_headers.induct) (simp_all split: list.splits)

lemma Do_forward: "Do r \<notin> set (forward d resp)"
  by (simp add: forward_def Do_copy_headers copy_body_def write_bytes_def split: option.splits)

lemma Do_accounting: "Do r \<notin> set (accounting d c dur resp)"
  by (simp add: accounting_def Let_def split: option.splits)

lemma JSON_copy_headers:
  "JSON a b \<in> set (copy_headers hs rest) \<Longrightarrow> JSON a b \<in> set rest"
  by (induction hs rest rule: copy_headers.induct) (auto split: list.splits)

lemma JSON_400_forward: "JSON 400 e \<notin> set (forward d resp)"
  by (auto simp add: forward_def copy_body_def write_bytes_def dest!: JSON_copy_headers
      split: option.splits if_splits)

lemma JSON_accounting: "JSON a e \<notin> set (accounting d c dur resp)"
  by (simp add: accounting_def Let_def split: option.splits)

lemma copy_headers_all:
  "\<forall>(k, v) \<in> set hs. v \<noteq> [] \<Longrightarrow>
   copy_headers hs rest = map (\<lambda>(k, v). Header_Set k (hd v)) hs @ rest"
  by (induction hs rest rule: copy_headers.induct) (auto split: list.splits)

lemma WriteHeader_forward:
  assumes "ReqBody_Close_ok d" and "ClientBody_Close_ok d"
      and "\<forall>(k, v) \<in> set (RespHeader resp). v \<noteq> []"
  shows "WriteHeader (RespStatusCode resp) \<in> set (forward d resp)"
  using assms by (simp add: forward_def copy_headers_all)

text \<open>The run that reaches the upstream.\<close>

lemma RelayAudio_reached:
  assumes "ShouldBind d = Some form" and "File_Open_ok d"
      and "binary_Read (Content (File form)) = Some h"
      and "0 \<le> GetInt c ''channel''"
      and "GetInt c ''channel'' < int (length (ChannelBaseURLs d))"
      and "CreateFormFile_ok d" and "NewRequest_ok d"
  shows "RelayAudio d c =
     (let baseURL = (if GetString c ''base_url'' \<noteq> [] then GetString c ''base_url''
                     else ChannelBaseURLs d ! nat (GetInt c ''channel''));
          req = outbound d c form baseURL
      in Do req #
         (case httpClient_Do d req of
            Inl e \<Rightarrow> [SysLog (''RelayAudio do_request_failed '' @ e),
                      JSON 500 (audio_error ''do_request_failed'' e)]
          | Inr resp \<Rightarrow>
              forward d resp @ accounting d c (estimate_duration h (Size (File form))) resp)
         @ [File_Close])"
  using assms by (simp add: RelayAudio_def RelayAudio_opened_def RelayAudio_estimated_def Let_def)

text \<open>A request was sent only by such a run.\<close>

lemma RelayAudio_Do:
  assumes "Do req \<in> set (RelayAudio d c)"
  shows "\<exists>form h. ShouldBind d = Some form \<and> File_Open_ok d
           \<and> binary_Read (Content (File form)) = Some h
           \<and> 0 \<le> GetInt c ''channel''
           \<and> GetInt c ''channel'' < int (length (ChannelBaseURLs d))
           \<and> CreateFormFile_ok d \<and> NewRequest_ok d
           \<and> req = outbound d c form
                     (if GetString c ''base_url'' \<noteq> [] then GetString c ''base_url''
                      else ChannelBaseURLs d ! nat (GetInt c ''channel''))"
  using assms
  by (auto simp add: RelayAudio_def RelayAudio_opened_def RelayAudio_estimated_def Let_def Do_forward Do_accounting
      split: option.splits if_splits sum.splits)

lemma RelayAudio_answered:
  assumes "Do req \<in> set (RelayAudio d c)" and "httpClient_Do d req = Inr resp"
  shows "\<exists>form h. ShouldBind d = Some form \<and> binary_Read (Content (File form)) = Some h
      \<and> RelayAudio d c = Do req # forward d resp
            @ accounting d c (estimate_duration h (Size (File form))) resp @ [File_Close]"
proof -
  from RelayAudio_Do [OF assms(1)] obtain form h where
    r: "ShouldBind d = Some form" "File_Open_ok d" "binary_Read (Content (File form)) = Some h"
    "0 \<le> GetInt c ''channel''" "GetInt c ''channel'' < int (length (ChannelBaseURLs d))"
    "CreateFormFile_ok d" "NewRequest_ok d"
    "req = outbound d c form (if GetString c ''base_url'' \<noteq> [] then GetString c ''base_url''
                     else ChannelBaseURLs d ! nat (GetInt c ''channel''))"
    by blast
  have "RelayAudio d c = Do req # forward d resp
            @ accounting d c (estimate_duration h (Size (File form))) resp @ [File_Close]"
    using RelayAudio_reached [OF r(1-7)] r(8) assms(2) by (simp add: Let_def)
  with r show ?thesis by blast
qed

lemma RelayAudio_unanswered:
  assumes "\<And>req resp. Do req \<in> set (RelayAudio d c) \<Longrightarrow> httpClient_Do d req \<noteq> Inr resp"
  shows "filter is_accounting (RelayAudio d c) = []"
  using assms
  by (simp add: RelayAudio_def RelayAudio_opened_def RelayAudio_estimated_def Let_def
      split: option.splits if_splits sum.splits)

subsection \<open>The concrete runs\<close>

lemma deps_ok_QuotaPerUnit: "QuotaPerUnit deps_ok = Fin 500000"
  by (simp add: deps_ok_def)

lemma deps_ok_run:
  assumes "ShouldBind d = Some form_wav" and "File_Open_ok d"
      and "ChannelBaseURLs d = ChannelBaseURLs deps_ok"
      and "CreateFormFile_ok d" and "NewRequest_ok d"
      and "FormatFloat d = FormatFloat deps_ok"
      and "FormDataContentType d = FormDataContentType deps_ok"
      and "httpClient_Do d req_ok = Inr resp"
  shows "RelayAudio d ctx_audio =
           Do req_ok # forward d resp @ accounting d ctx_audio (Fin 10) resp @ [File_Close]"
proof -
  have r: "binary_Read (Content (File form_wav)) = Some hdr_10s"
    by (simp add: form_wav_def wav_10s_read)
  have c: "0 \<le> GetInt ctx_audio ''channel''"
    "GetInt ctx_audio ''channel'' < int (length (ChannelBaseURLs d))"
    by (simp_all add: ctx_audio_def assms(3) deps_ok_def)
  have o: "outbound d ctx_audio form_wav
            (if GetString ctx_audio ''base_url'' \<noteq> [] then GetString ctx_audio ''base_url''
             else ChannelBaseURLs d ! nat (GetInt ctx_audio ''channel'')) = req_ok"
    by (simp add: outbound_def assms(3,6,7) deps_ok_def ctx_audio_def req_ok_def form_wav_def)
  have e: "estimate_duration hdr_10s (Size (File form_wav)) = Fin 10"
    by (rule duration_10s)
  show ?thesis
    using RelayAudio_reached [OF assms(1,2) r c assms(4,5)] assms(8)
    by (simp add: Let_def o e)
qed

lemma billed_10s:
  assumes "QuotaPerUnit d = Fin 500000" and "Sprintf_ratios d = Sprintf_ratios deps_ok"
      and "RespStatusCode resp = 200"
      and "PostConsumeTokenQuota_err d = None" and "CacheUpdateUserQuota_err d = None"
  shows "accounting d ctx_audio (Fin 10) resp =
     [PostConsumeTokenQuota 5 500, CacheUpdateUserQuota 3,
      RecordConsumeLog 3 0 0 ''whisper-1'' [] 500 ''ratios'',
      UpdateUserUsedQuotaAndRequestCount 3 500, UpdateChannelUsedQuota 7 500]"
  using assms by (simp add: accounting_def quota_10s Let_def ctx_audio_def deps_ok_def)

lemma run_ok:
  "RelayAudio deps_ok ctx_audio =
     [Do req_ok, ReqBody_Close, ClientBody_Close, Header_Set ''Content-Type'' ''text/plain'',
      WriteHeader 200, Write (bytes_of ''hello''), RespBody_Close,
      PostConsumeTokenQuota 5 500, CacheUpdateUserQuota 3,
      RecordConsumeLog 3 0 0 ''whisper-1'' [] 500 ''ratios'',
      UpdateUserUsedQuotaAndRequestCount 3 500, UpdateChannelUsedQuota 7 500, File_Close]"
proof -
  have "RelayAudio deps_ok ctx_audio = Do req_ok # forward deps_ok resp_ok
      @ accounting deps_ok ctx_audio (Fin 10) resp_ok @ [File_Close]"
    by (rule deps_ok_run) (simp_all add: deps_ok_def)
  moreover have "accounting deps_ok ctx_audio (Fin 10) resp_ok =
     [PostConsumeTokenQuota 5 500, CacheUpdateUserQuota 3,
      RecordConsumeLog 3 0 0 ''whisper-1'' [] 500 ''ratios'',
      UpdateUserUsedQuotaAndRequestCount 3 500, UpdateChannelUsedQuota 7 500]"
    by (rule billed_10s) (simp_all add: deps_ok_def resp_ok_def)
  moreover have "forward deps_ok resp_ok =
     [ReqBody_Close, ClientBody_Close, Header_Set ''Content-Type'' ''text/plain'',
      WriteHeader 200, Write (bytes_of ''hello''), RespBody_Close]"
    by (simp add: forward_def deps_ok_def resp_ok_def copy_body_def write_bytes_def
        bytes_of_def)
  ultimately show ?thesis by simp
qed

lemma run_copy_fails:
  "RelayAudio (deps_ok\<lparr>Copy_fails_after := Some 2\<rparr>) ctx_audio =
     [Do req_ok, ReqBody_Close, ClientBody_Close, Header_Set ''Content-Type'' ''text/plain'',
      WriteHeader 200, Write (bytes_of ''he''),
      JSON 500 (audio_error ''copy_response_body_failed'' []),
      PostConsumeTokenQuota 5 500, CacheUpdateUserQuota 3,
      RecordConsumeLog 3 0 0 ''whisper-1'' [] 500 ''ratios'',
      UpdateUserUsedQuotaAndRequestCount 3 500, UpdateChannelUsedQuota 7 500, File_Close]"
proof -
  let ?d = "deps_ok\<lparr>Copy_fails_after := Some 2\<rparr>"
  have "RelayAudio ?d ctx_audio = Do req_ok # forward ?d resp_ok
      @ accounting ?d ctx_audio (Fin 10) resp_ok @ [File_Close]"
    by (rule deps_ok_run) (simp_all add: deps_ok_def)
  moreover have "accounting ?d ctx_audio (Fin 10) resp_ok =
     [PostConsumeTokenQuota 5 500, CacheUpdateUserQuota 3,
      RecordConsumeLog 3 0 0 ''whisper-1'' [] 500 ''ratios'',
      UpdateUserUsedQuotaAndRequestCount 3 500, UpdateChannelUsedQuota 7 500]"
    by (rule billed_10s) (simp_all add: deps_ok_def resp_ok_def)
  moreover have "forward ?d resp_ok =
     [ReqBody_Close, ClientBody_Close, Header_Set ''Content-Type'' ''text/plain'',
      WriteHeader 200, Write (bytes_of ''he''),
      JSON 500 (audio_error ''copy_response_body_failed'' [])]"
    by (simp add: forward_def deps_ok_def resp_ok_def copy_body_def write_bytes_def
        bytes_of_def)
  ultimately show ?thesis by simp
qed

lemma run_created:
  "RelayAudio deps_created ctx_audio =
     [Do req_ok, ReqBody_Close, ClientBody_Close, Header_Set ''Content-Type'' ''text/plain'',
      WriteHeader 201, Write (bytes_of ''hello''), RespBody_Close, File_Close]"
proof -
  let ?r = "resp_ok\<lparr>RespStatusCode := 201\<rparr>"
  have "RelayAudio deps_created ctx_audio = Do req_ok # forward deps_created ?r
      @ accounting deps_created ctx_audio (Fin 10) ?r @ [File_Close]"
    by (rule deps_ok_run) (simp_all add: deps_ok_def deps_created_def)
  moreover have "accounting deps_created ctx_audio (Fin 10) ?r = []"
    by (simp add: accounting_def)
  moreover have "forward deps_created ?r =
     [ReqBody_Close, ClientBody_Close, Header_Set ''Content-Type'' ''text/plain'',
      WriteHeader 201, Write (bytes_of ''hello''), RespBody_Close]"
    by (simp add: forward_def deps_created_def deps_ok_def resp_ok_def copy_body_def
        write_bytes_def bytes_of_def)
  ultimately show ?thesis by simp
qed

section \<open>RelayAudio: accounting\<close>

text \<open>
  Claim C10. The accounting calls are made exactly when the upstream answered and its
  status code is 200. When the upstream answered, with any status code and whatever
  happens afterwards (the closes, the copy of the body), the accounting calls are the
  steps of the claim for the quota of the estimated duration if the status code is 200 and
  none otherwise; and when both request bodies close and every header has a value, the
  status code of the upstream is written to the client, billed or not.
\<close>

theorem accounting_iff_status_200:
  "(filter is_accounting (RelayAudio d c) \<noteq> []
      \<longleftrightarrow> (\<exists>req resp. Do req \<in> set (RelayAudio d c) \<and> httpClient_Do d req = Inr resp
                       \<and> RespStatusCode resp = 200))
   \<and> (\<forall>req resp form h.
         Do req \<in> set (RelayAudio d c) \<and> httpClient_Do d req = Inr resp
         \<and> ShouldBind d = Some form \<and> binary_Read (Content (File form)) = Some h \<longrightarrow>
           filter is_accounting (RelayAudio d c) =
             (if RespStatusCode resp = 200
              then accounting_steps d c
                     (audio_quota (int_impl d) (QuotaPerUnit d)
                        (estimate_duration h (Size (File form))))
              else [])
         \<and> (ReqBody_Close_ok d \<and> ClientBody_Close_ok d
              \<and> (\<forall>(k, v) \<in> set (RespHeader resp). v \<noteq> []) \<longrightarrow>
              WriteHeader (RespStatusCode resp) \<in> set (RelayAudio d c)))"
proof -
  have run: "RelayAudio d c = Do req # forward d resp
            @ accounting d c (estimate_duration h (Size (File form))) resp @ [File_Close]"
    if "Do req \<in> set (RelayAudio d c)" "httpClient_Do d req = Inr resp"
       "ShouldBind d = Some form" "binary_Read (Content (File form)) = Some h"
    for req resp form h
    using RelayAudio_answered [OF that(1,2)] that(3,4) by auto
  have A: "filter is_accounting (RelayAudio d c) =
             (if RespStatusCode resp = 200
              then accounting_steps d c
                     (audio_quota (int_impl d) (QuotaPerUnit d)
                        (estimate_duration h (Size (File form))))
              else [])"
    if "Do req \<in> set (RelayAudio d c)" "httpClient_Do d req = Inr resp"
       "ShouldBind d = Some form" "binary_Read (Content (File form)) = Some h"
    for req resp form h
    by (simp add: run [OF that] acc_forward acc_accounting_steps)
  have W: "WriteHeader (RespStatusCode resp) \<in> set (RelayAudio d c)"
    if "Do req \<in> set (RelayAudio d c)" "httpClient_Do d req = Inr resp"
       "ShouldBind d = Some form" "binary_Read (Content (File form)) = Some h"
       "ReqBody_Close_ok d" "ClientBody_Close_ok d"
       "\<forall>(k, v) \<in> set (RespHeader resp). v \<noteq> []"
    for req resp form h
    using WriteHeader_forward [OF that(5,6,7)] by (simp add: run [OF that(1-4)])
  have B: "filter is_accounting (RelayAudio d c) \<noteq> []
      \<longleftrightarrow> (\<exists>req resp. Do req \<in> set (RelayAudio d c) \<and> httpClient_Do d req = Inr resp
                       \<and> RespStatusCode resp = 200)"
  proof
    assume ne: "filter is_accounting (RelayAudio d c) \<noteq> []"
    then obtain req resp where
      rr: "Do req \<in> set (RelayAudio d c)" "httpClient_Do d req = Inr resp"
      using RelayAudio_unanswered [of d c] by blast
    from RelayAudio_answered [OF rr] obtain form h where
      fh: "ShouldBind d = Some form" "binary_Read (Content (File form)) = Some h" by blast
    from A [OF rr fh] ne have "RespStatusCode resp = 200" by (simp split: if_splits)
    with rr show "\<exists>req resp. Do req \<in> set (RelayAudio d c) \<and> httpClient_Do d req = Inr resp
                       \<and> RespStatusCode resp = 200" by blast
  next
    assume "\<exists>req resp. Do req \<in> set (RelayAudio d c) \<and> httpClient_Do d req = Inr resp
                       \<and> RespStatusCode resp = 200"
    then obtain req resp where
      rr: "Do req \<in> set (RelayAudio d c)" "httpClient_Do d req = Inr resp"
      and ok: "RespStatusCode resp = 200" by blast
    from RelayAudio_answered [OF rr] obtain form h where
      fh: "ShouldBind d = Some form" "binary_Read (Content (File form)) = Some h" by blast
    from A [OF rr fh] ok show "filter is_accounting (RelayAudio d c) \<noteq> []"
      by (simp add: accounting_steps_ne)
  qed
  from A W B show ?thesis by blast
qed

theorem accounting_iff_status_200_witness:
  "Do req_ok \<in> set (RelayAudio deps_ok ctx_audio)
   \<and> httpClient_Do deps_ok req_ok = Inr resp_ok \<and> RespStatusCode resp_ok = 200
   \<and> filter is_accounting (RelayAudio deps_ok ctx_audio) = accounting_steps deps_ok ctx_audio 500
   \<and> Copy_fails_after (deps_ok\<lparr>Copy_fails_after := Some 2\<rparr>) = Some 2
   \<and> filter is_accounting (RelayAudio (deps_ok\<lparr>Copy_fails_after := Some 2\<rparr>) ctx_audio)
       = accounting_steps deps_ok ctx_audio 500
   \<and> httpClient_Do deps_created req_ok = Inr (resp_ok\<lparr>RespStatusCode := 201\<rparr>)
   \<and> filter is_accounting (RelayAudio deps_created ctx_audio) = []
   \<and> WriteHeader 201 \<in> set (RelayAudio deps_created ctx_audio)"
proof -
  have r: "binary_Read (Content (File form_wav)) = Some hdr_10s"
    by (simp add: form_wav_def wav_10s_read)
  have e: "estimate_duration hdr_10s (Size (File form_wav)) = Fin 10"
    by (rule duration_10s)
  have s: "accounting_steps (deps_ok\<lparr>Copy_fails_after := Some 2\<rparr>) ctx_audio 500
      = accounting_steps deps_ok ctx_audio 500"
    by (simp add: accounting_steps_def)
  have 1: "Do req_ok \<in> set (RelayAudio deps_ok ctx_audio)
     \<and> httpClient_Do deps_ok req_ok = Inr resp_ok
     \<and> ShouldBind deps_ok = Some form_wav
     \<and> binary_Read (Content (File form_wav)) = Some hdr_10s"
    using r by (simp add: run_ok) (simp add: deps_ok_def)
  have 2: "Do req_ok \<in> set (RelayAudio (deps_ok\<lparr>Copy_fails_after := Some 2\<rparr>) ctx_audio)
     \<and> httpClient_Do (deps_ok\<lparr>Copy_fails_after := Some 2\<rparr>) req_ok = Inr resp_ok
     \<and> ShouldBind (deps_ok\<lparr>Copy_fails_after := Some 2\<rparr>) = Some form_wav
     \<and> binary_Read (Content (File form_wav)) = Some hdr_10s"
    using r by (simp add: run_copy_fails) (simp add: deps_ok_def)
  have 3: "Do req_ok \<in> set (RelayAudio deps_created ctx_audio)
     \<and> httpClient_Do deps_created req_ok = Inr (resp_ok\<lparr>RespStatusCode := 201\<rparr>)
     \<and> ShouldBind deps_created = Some form_wav
     \<and> binary_Read (Content (File form_wav)) = Some hdr_10s"
    using r by (simp add: run_created) (simp add: deps_created_def deps_ok_def)
  have c: "ReqBody_Close_ok deps_created \<and> ClientBody_Close_ok deps_created
      \<and> (\<forall>(k, v) \<in> set (RespHeader (resp_ok\<lparr>RespStatusCode := 201\<rparr>)). v \<noteq> [])"
    by (simp add: deps_created_def deps_ok_def resp_ok_def)
  have t1: "filter is_accounting (RelayAudio deps_ok ctx_audio)
      = accounting_steps deps_ok ctx_audio 500"
    using accounting_iff_status_200 [of deps_ok ctx_audio, THEN conjunct2, rule_format, OF 1,
        THEN conjunct1] e
    by (simp add: resp_ok_def deps_ok_QuotaPerUnit quota_10s)
  have t2: "filter is_accounting (RelayAudio (deps_ok\<lparr>Copy_fails_after := Some 2\<rparr>) ctx_audio)
       = accounting_steps deps_ok ctx_audio 500"
    using accounting_iff_status_200 [of "deps_ok\<lparr>Copy_fails_after := Some 2\<rparr>" ctx_audio,
        THEN conjunct2, rule_format, OF 2, THEN conjunct1] e
    by (simp add: resp_ok_def deps_ok_QuotaPerUnit quota_10s s)
  have t3: "filter is_accounting (RelayAudio deps_created ctx_audio) = []"
    using accounting_iff_status_200 [of deps_created ctx_audio, THEN conjunct2, rule_format,
        OF 3, THEN conjunct1]
    by simp
  have t4: "WriteHeader 201 \<in> set (RelayAudio deps_created ctx_audio)"
    using accounting_iff_status_200 [of deps_created ctx_audio, THEN conjunct2, rule_format,
        OF 3, THEN conjunct2, rule_format, OF c]
    by simp
  show ?thesis using 1 3 t1 t2 t3 t4 by (simp add: resp_ok_def)
qed

section \<open>RelayAudio: a header that cannot be read\<close>

text \<open>
  Claim C4, as stated, fails: an upload of four bytes, on which the read of the header
  fails, is answered with status 400 and the envelope of ``Read file error''; nothing is
  forwarded to the upstream.
\<close>

theorem short_upload_is_rejected:
  "RelayAudio (deps_ok\<lparr>ShouldBind := Some form_short\<rparr>) ctx_audio =
     [JSON 400 (audio_error ''Read file error'' []), File_Close]"
  by (simp add: RelayAudio_def RelayAudio_opened_def RelayAudio_estimated_def deps_ok_def form_short_def form_wav_def
      binary_Read_def bytes_of_def)

lemma RelayAudio_read:
  assumes "ShouldBind d = Some form" and "File_Open_ok d"
      and "binary_Read (Content (File form)) = Some h"
  shows "RelayAudio d c
           = RelayAudio_estimated d c form (estimate_duration h (Size (File form))) @ [File_Close]"
  using assms by (simp add: RelayAudio_def RelayAudio_opened_def)

lemma RelayAudio_estimated_forwards:
  assumes "0 \<le> GetInt c ''channel''"
      and "GetInt c ''channel'' < int (length (ChannelBaseURLs d))"
      and "CreateFormFile_ok d" and "NewRequest_ok d"
  shows "hd (RelayAudio_estimated d c form dur)
           = Do (outbound d c form
                   (if GetString c ''base_url'' \<noteq> [] then GetString c ''base_url''
                    else ChannelBaseURLs d ! nat (GetInt c ''channel'')))"
  using assms by (simp add: RelayAudio_estimated_def Let_def)

text \<open>
  Claim C4, amended. When the form binds and the file opens: an upload shorter than 44
  bytes, on which the read of the header fails, ends the relay with status 400 and the
  envelope of ``Read file error'', the file closed, nothing forwarded and nothing billed.
  An upload of 44 bytes or more never gets that answer, whatever its bytes are: the relay
  goes on with an estimate, which is the fallback (the size of the file by 16000, in
  float64) when the RIFF or the WAVE magic does not match and the quotient of the header's
  data size by its byte rate when both match, so the fallback applies only to a header that
  was read and lacks the magic; and with that estimate the request is forwarded as soon as
  the base URL and the outbound request are there.
\<close>

theorem read_failure_is_terminal:
  assumes "ShouldBind d = Some form" and "File_Open_ok d"
  shows "(length (Content (File form)) < 44 \<longrightarrow>
            RelayAudio d c = [JSON 400 (audio_error ''Read file error'' []), File_Close])
       \<and> (44 \<le> length (Content (File form)) \<longrightarrow>
            JSON 400 (audio_error ''Read file error'' []) \<notin> set (RelayAudio d c)
          \<and> (take 4 (Content (File form)) \<noteq> bytes_of ''RIFF''
               \<or> take 4 (drop 8 (Content (File form))) \<noteq> bytes_of ''WAVE'' \<longrightarrow>
              RelayAudio d c
                = RelayAudio_estimated d c form
                    (fdiv (float64_of_int (Size (File form))) (Fin 16000)) @ [File_Close])
          \<and> (take 4 (Content (File form)) = bytes_of ''RIFF''
               \<and> take 4 (drop 8 (Content (File form))) = bytes_of ''WAVE'' \<longrightarrow>
              RelayAudio d c
                = RelayAudio_estimated d c form
                    (fdiv (float64_of_int (uint (Uint32 (take 4 (drop 40 (Content (File form)))))))
                       (float64_of_int (uint (Uint32 (take 4 (drop 28 (Content (File form))))))))
                  @ [File_Close]))
       \<and> (0 \<le> GetInt c ''channel'' \<and> GetInt c ''channel'' < int (length (ChannelBaseURLs d))
            \<and> CreateFormFile_ok d \<and> NewRequest_ok d \<longrightarrow>
            hd (RelayAudio_estimated d c form dur)
              = Do (outbound d c form
                      (if GetString c ''base_url'' \<noteq> [] then GetString c ''base_url''
                       else ChannelBaseURLs d ! nat (GetInt c ''channel''))))"
proof -
  have a: "RelayAudio d c = [JSON 400 (audio_error ''Read file error'' []), File_Close]"
    if "length (Content (File form)) < 44"
    using that assms binary_Read_None [of "Content (File form)"]
    by (simp add: RelayAudio_def RelayAudio_opened_def)
  have b: "JSON 400 (audio_error ''Read file error'' []) \<notin> set (RelayAudio d c)
          \<and> (take 4 (Content (File form)) \<noteq> bytes_of ''RIFF''
               \<or> take 4 (drop 8 (Content (File form))) \<noteq> bytes_of ''WAVE'' \<longrightarrow>
              RelayAudio d c
                = RelayAudio_estimated d c form
                    (fdiv (float64_of_int (Size (File form))) (Fin 16000)) @ [File_Close])
          \<and> (take 4 (Content (File form)) = bytes_of ''RIFF''
               \<and> take 4 (drop 8 (Content (File form))) = bytes_of ''WAVE'' \<longrightarrow>
              RelayAudio d c
                = RelayAudio_estimated d c form
                    (fdiv (float64_of_int (uint (Uint32 (take 4 (drop 40 (Content (File form)))))))
                       (float64_of_int (uint (Uint32 (take 4 (drop 28 (Content (File form))))))))
                  @ [File_Close])"
    if "44 \<le> length (Content (File form))"
  proof -
    from that obtain h where h: "binary_Read (Content (File form)) = Some h"
      using binary_Read_None [of "Content (File form)"] by auto
    note fs = binary_Read_fields [OF h]
    have 1: "JSON 400 (audio_error ''Read file error'' []) \<notin> set (RelayAudio d c)"
      using assms h
      by (simp add: RelayAudio_def RelayAudio_opened_def RelayAudio_estimated_def Let_def
          JSON_400_forward JSON_accounting audio_error_def split: sum.splits)
    have r: "RelayAudio d c
        = RelayAudio_estimated d c form (estimate_duration h (Size (File form))) @ [File_Close]"
      using assms h by (rule RelayAudio_read)
    have 2: "estimate_duration h (Size (File form))
        = fdiv (float64_of_int (Size (File form))) (Fin 16000)"
      if "take 4 (Content (File form)) \<noteq> bytes_of ''RIFF''
               \<or> take 4 (drop 8 (Content (File form))) \<noteq> bytes_of ''WAVE''"
      using that fs(1,2) by (intro estimate_fallback) simp
    have 3: "estimate_duration h (Size (File form))
        = fdiv (float64_of_int (uint (Uint32 (take 4 (drop 40 (Content (File form)))))))
            (float64_of_int (uint (Uint32 (take 4 (drop 28 (Content (File form)))))))"
      if "take 4 (Content (File form)) = bytes_of ''RIFF''
               \<and> take 4 (drop 8 (Content (File form))) = bytes_of ''WAVE''"
      using that fs by (simp add: estimate_duration_def)
    show ?thesis using 1 2 3 r by simp
  qed
  from a b RelayAudio_estimated_forwards [of c d form dur] show ?thesis by blast
qed

theorem read_failure_is_terminal_witness:
  "ShouldBind (deps_ok\<lparr>ShouldBind := Some form_short\<rparr>) = Some form_short
   \<and> File_Open_ok (deps_ok\<lparr>ShouldBind := Some form_short\<rparr>)
   \<and> length (Content (File form_short)) < 44
   \<and> RelayAudio (deps_ok\<lparr>ShouldBind := Some form_short\<rparr>) ctx_audio
       = [JSON 400 (audio_error ''Read file error'' []), File_Close]
   \<and> ShouldBind deps_ok = Some form_wav \<and> 44 \<le> length (Content (File form_wav))
   \<and> JSON 400 (audio_error ''Read file error'' []) \<notin> set (RelayAudio deps_ok ctx_audio)
   \<and> ShouldBind (deps_ok\<lparr>ShouldBind := Some (form_wav\<lparr>File := file_ogg\<rparr>)\<rparr>)
       = Some (form_wav\<lparr>File := file_ogg\<rparr>)
   \<and> 44 \<le> length (Content file_ogg) \<and> take 4 (Content file_ogg) \<noteq> bytes_of ''RIFF''
   \<and> RelayAudio (deps_ok\<lparr>ShouldBind := Some (form_wav\<lparr>File := file_ogg\<rparr>)\<rparr>) ctx_audio
       = RelayAudio_estimated (deps_ok\<lparr>ShouldBind := Some (form_wav\<lparr>File := file_ogg\<rparr>)\<rparr>)
           ctx_audio (form_wav\<lparr>File := file_ogg\<rparr>) (Fin 1) @ [File_Close]
   \<and> hd (RelayAudio_estimated deps_ok ctx_audio form_wav (Fin 1)) = Do req_ok"
proof -
  let ?f = "form_wav\<lparr>File := file_ogg\<rparr>"
  let ?d = "deps_ok\<lparr>ShouldBind := Some ?f\<rparr>"
  have 1: "ShouldBind (deps_ok\<lparr>ShouldBind := Some form_short\<rparr>) = Some form_short" by simp
  have 2: "File_Open_ok (deps_ok\<lparr>ShouldBind := Some form_short\<rparr>)" by (simp add: deps_ok_def)
  have 3: "length (Content (File form_short)) < 44" by (simp add: form_short_def bytes_of_def)
  have 4: "ShouldBind deps_ok = Some form_wav" "File_Open_ok deps_ok"
    by (simp_all add: deps_ok_def)
  have 5: "44 \<le> length (Content (File form_wav))"
    by (simp add: form_wav_def wav_10s_def bytes_of_def)
  have 6: "ShouldBind ?d = Some ?f" "File_Open_ok ?d" by (simp_all add: deps_ok_def)
  have 7: "44 \<le> length (Content (File ?f))" "take 4 (Content (File ?f)) \<noteq> bytes_of ''RIFF''"
    by (simp_all add: ogg_length ogg_magic)
  have c: "float64_of_int 16000 = Fin 16000"
    using float64_of_size [of 16000] by simp
  have 8: "fdiv (float64_of_int (Size (File ?f))) (Fin 16000) = Fin 1"
    by (simp add: Size_def ogg_length c round64_1)
  have 9: "0 \<le> GetInt ctx_audio ''channel'' \<and> GetInt ctx_audio ''channel''
        < int (length (ChannelBaseURLs deps_ok))
      \<and> CreateFormFile_ok deps_ok \<and> NewRequest_ok deps_ok"
    by (simp add: ctx_audio_def deps_ok_def)
  have o: "outbound deps_ok ctx_audio form_wav
            (if GetString ctx_audio ''base_url'' \<noteq> [] then GetString ctx_audio ''base_url''
             else ChannelBaseURLs deps_ok ! nat (GetInt ctx_audio ''channel'')) = req_ok"
    by (simp add: outbound_def deps_ok_def ctx_audio_def req_ok_def form_wav_def)
  from read_failure_is_terminal [OF 1 2, of ctx_audio]
    read_failure_is_terminal [OF 4, of ctx_audio "Fin 1"]
    read_failure_is_terminal [OF 6, of ctx_audio] 1 2 3 4 5 6 7 8 9 o
  show ?thesis by simp
qed

section \<open>RelayAudio: closing the response body\<close>

lemma RespBody_Close_copy_headers:
  "RespBody_Close \<in> set (copy_headers hs rest) \<Longrightarrow> RespBody_Close \<in> set rest"
  by (induction hs rest rule: copy_headers.induct) (auto split: list.splits)

text \<open>Whenever the copy of the body fails, the response body is not closed.\<close>

lemma copy_failure_never_closes:
  "Copy_fails_after d = Some n \<Longrightarrow> RespBody_Close \<notin> set (forward d resp)"
  by (auto simp add: forward_def copy_body_def write_bytes_def
      dest!: RespBody_Close_copy_headers split: if_splits)

text \<open>
  Claim C9 does not hold of the code. The upstream answers 200 with a body of five bytes
  and the copy to the client fails after two of them: the function answers with the
  envelope of ``copy\_response\_body\_failed'' and returns; the outbound request body was
  closed, the response body never is, while the run whose copy succeeds closes it.
\<close>

theorem copy_failure_leaves_response_body_open:
  "RelayAudio (deps_ok\<lparr>Copy_fails_after := Some 2\<rparr>) ctx_audio =
     [Do req_ok, ReqBody_Close, ClientBody_Close, Header_Set ''Content-Type'' ''text/plain'',
      WriteHeader 200, Write (bytes_of ''he''),
      JSON 500 (audio_error ''copy_response_body_failed'' []),
      PostConsumeTokenQuota 5 500, CacheUpdateUserQuota 3,
      RecordConsumeLog 3 0 0 ''whisper-1'' [] 500 ''ratios'',
      UpdateUserUsedQuotaAndRequestCount 3 500, UpdateChannelUsedQuota 7 500, File_Close]
   \<and> RespBody_Close \<notin> set (RelayAudio (deps_ok\<lparr>Copy_fails_after := Some 2\<rparr>) ctx_audio)
   \<and> RespBody_Close \<in> set (RelayAudio deps_ok ctx_audio)"
  by (simp add: run_copy_fails run_ok)

section \<open>RelayAudio: what the client receives\<close>

lemma header_after_Nil [simp]: "header_after canon m [] = m"
  by (simp add: header_after_def)

lemma header_after_Cons [simp]:
  "header_after canon m ((k, v) # hs) = header_after canon (m(canon k \<mapsto> [hd v])) hs"
  by (simp add: header_after_def)















end
